theory Spec2Isabelle
  imports Complex_Main "HOL-Library.Multiset" "HOL-Library.Char_ord" "HOL-Library.List_Lexorder"
begin

unbundle bit_operations_syntax

section \<open>Python values used by the interface\<close>

text \<open>
  The exceptions that the code of \<^verbatim>\<open>interface.py\<close> can raise: \<^verbatim>\<open>Exit\<close> is the
  module's own class, \<^verbatim>\<open>ValueError\<close> comes from \<^verbatim>\<open>get_column_at_x\<close>, from
  \<^verbatim>\<open>list.index\<close> and from \<^verbatim>\<open>int\<close>, \<^verbatim>\<open>IndexError\<close> from list subscripts,
  \<^verbatim>\<open>KeyError\<close> from dictionary subscripts, and
  \<^verbatim>\<open>CollaboratorError\<close> stands for whatever exception a call into the download
  daemon's client raises (always an \<^verbatim>\<open>Exception\<close>, never \<^verbatim>\<open>Exit\<close>).
\<close>

datatype exn = Exit | ValueError | IndexError | KeyError | CollaboratorError

text \<open>\<^verbatim>\<open>xs[i]\<close>: a negative index counts from the end, anything out of range raises.\<close>

definition py_index :: "'a list \<Rightarrow> int \<Rightarrow> exn + 'a" where
  "py_index xs i =
     (if 0 \<le> i \<and> i < int (length xs) then Inr (xs ! nat i)
      else if i < 0 \<and> - int (length xs) \<le> i then Inr (xs ! nat (int (length xs) + i))
      else Inl IndexError)"

text \<open>\<^verbatim>\<open>xs[i:]\<close>: never raises; a negative start counts from the end and is clipped.\<close>

definition py_slice_from :: "'a list \<Rightarrow> int \<Rightarrow> 'a list" where
  "py_slice_from xs i =
     (if 0 \<le> i then drop (nat i) xs else drop (nat (int (length xs) + i)) xs)"

section \<open>HorizontalScroll\<close>

text \<open>
  An asciimatics palette is a triple of colour, attribute and background. The
  \<^verbatim>\<open>palette\<close> argument of \<^verbatim>\<open>print_at\<close> is either one triple or a list of triples
  (\<^verbatim>\<open>isinstance(palette, list)\<close>). The screen is the list of writes it has received.
\<close>

type_synonym attr = "int \<times> int \<times> int"

datatype palette = Single attr | PerChar "attr list"

datatype screen_write =
    Paint string int int "attr list"
  | PrintAt string int int attr

record HorizontalScroll =
  screen :: "screen_write list"
  scroll :: int

definition set_scroll :: "int \<Rightarrow> HorizontalScroll \<Rightarrow> HorizontalScroll" where
  "set_scroll s h = h\<lparr>scroll := s\<rparr>"

text \<open>
  \<^verbatim>\<open>print_at\<close> returns \<^verbatim>\<open>written\<close> together with the updated writer. The branches
  are those of the source, in its order: \<^verbatim>\<open>scroll == 0\<close>, then
  \<^verbatim>\<open>text_length > scroll\<close>, \<^verbatim>\<open>text_length == scroll\<close>, and the rest.
\<close>

definition print_at ::
  "string \<Rightarrow> int \<Rightarrow> int \<Rightarrow> palette \<Rightarrow> HorizontalScroll \<Rightarrow> int \<times> HorizontalScroll" where
  "print_at text x y p h =
     (if scroll h = 0 then
        (int (length text),
         h\<lparr>screen := screen h @
              [case p of PerChar ps \<Rightarrow> Paint text x y ps | Single a \<Rightarrow> PrintAt text x y a]\<rparr>)
      else
        let text_length = int (length text) in
        if text_length > scroll h then
          let new_text = py_slice_from text (scroll h) in
          (int (length new_text),
           h\<lparr>screen := screen h @
                [case p of
                   PerChar ps \<Rightarrow> Paint new_text x y (py_slice_from ps (scroll h))
                 | Single a \<Rightarrow> PrintAt new_text x y a],
             scroll := 0\<rparr>)
        else if text_length = scroll h then (0, h\<lparr>scroll := 0\<rparr>)
        else (0, h\<lparr>scroll := scroll h - text_length\<rparr>))"

text \<open>
  A sequence of \<^verbatim>\<open>print_at\<close> calls on one writer, as the painting routines make them
  for one line. The result lists, call by call, the value returned and the scroll
  counter left behind.
\<close>

fun print_seq ::
  "(string \<times> int \<times> int \<times> palette) list \<Rightarrow> HorizontalScroll \<Rightarrow> (int \<times> int) list" where
  "print_seq [] h = []"
| "print_seq ((text, x, y, p) # cs) h =
     (let (written, h') = print_at text x y p h
      in (written, scroll h') # print_seq cs h')"

definition texts_length :: "(string \<times> int \<times> int \<times> palette) list \<Rightarrow> int" where
  "texts_length cs = sum_list (map (\<lambda>c. int (length (fst c))) cs)"

section \<open>Keys\<close>

text \<open>
  The key codes of \<^verbatim>\<open>asciimatics.screen.Screen\<close> that the module names. They belong
  to the asciimatics library, which gives every named key a negative code so that it
  differs from every character code; the numbers below are asciimatics' own.
  \<^verbatim>\<open>MouseEvent.LEFT_CLICK\<close> is the bit 1 of the button mask.
\<close>

definition KEY_ESCAPE :: int where "KEY_ESCAPE = -1"
definition KEY_F1 :: int where "KEY_F1 = -2"
definition KEY_F2 :: int where "KEY_F2 = -3"
definition KEY_F3 :: int where "KEY_F3 = -4"
definition KEY_F4 :: int where "KEY_F4 = -5"
definition KEY_F6 :: int where "KEY_F6 = -7"
definition KEY_F7 :: int where "KEY_F7 = -8"
definition KEY_F8 :: int where "KEY_F8 = -9"
definition KEY_F9 :: int where "KEY_F9 = -10"
definition KEY_F10 :: int where "KEY_F10 = -11"
definition KEY_DELETE :: int where "KEY_DELETE = -102"
definition KEY_LEFT :: int where "KEY_LEFT = -203"
definition KEY_UP :: int where "KEY_UP = -204"
definition KEY_RIGHT :: int where "KEY_RIGHT = -205"
definition KEY_DOWN :: int where "KEY_DOWN = -206"
definition LEFT_CLICK :: int where "LEFT_CLICK = 1"

text \<open>
  \<^verbatim>\<open>Key(name, value)\<close>; with no value given, the value is \<^verbatim>\<open>ord(name)\<close> of the
  one-character name.
\<close>

record Key =
  key_name :: string
  key_value :: int

definition Key_named :: "string \<Rightarrow> int \<Rightarrow> Key" where
  "Key_named n v = \<lparr>key_name = n, key_value = v\<rparr>"

definition Key_char :: "char \<Rightarrow> Key" where
  "Key_char c = \<lparr>key_name = [c], key_value = int (of_char c)\<rparr>"

definition HELP :: "Key list" where
  "HELP = [Key_named ''F1'' KEY_F1, Key_char CHR ''h'']"
definition SETUP :: "Key list" where
  "SETUP = [Key_named ''F2'' KEY_F2]"
definition TOGGLE_RESUME_PAUSE :: "Key list" where
  "TOGGLE_RESUME_PAUSE = [Key_named ''space'' 32]"
definition PRIORITY_UP :: "Key list" where
  "PRIORITY_UP = [Key_named ''F7'' KEY_F7, Key_char CHR ''u'', Key_char CHR ''['']"
definition PRIORITY_DOWN :: "Key list" where
  "PRIORITY_DOWN = [Key_named ''F8'' KEY_F8, Key_char CHR ''d'', Key_char CHR '']'']"
definition REVERSE_SORT :: "Key list" where
  "REVERSE_SORT = [Key_char CHR ''I'']"
definition NEXT_SORT :: "Key list" where
  "NEXT_SORT = [Key_char CHR ''n'', Key_char CHR ''>'']"
definition PREVIOUS_SORT :: "Key list" where
  "PREVIOUS_SORT = [Key_char CHR ''p'', Key_char CHR ''<'']"
definition SELECT_SORT :: "Key list" where
  "SELECT_SORT = [Key_named ''F6'' KEY_F6]"
definition REMOVE_ASK :: "Key list" where
  "REMOVE_ASK = [Key_named ''F9'' KEY_F9, Key_named ''del'' KEY_DELETE]"
definition TOGGLE_EXPAND_COLLAPSE :: "Key list" where
  "TOGGLE_EXPAND_COLLAPSE = [Key_char CHR ''x'']"
definition TOGGLE_EXPAND_COLLAPSE_ALL :: "Key list" where
  "TOGGLE_EXPAND_COLLAPSE_ALL = [Key_char CHR ''X'']"
definition AUTOCLEAR :: "Key list" where
  "AUTOCLEAR = [Key_char CHR ''c'']"
definition FOLLOW_ROW :: "Key list" where
  "FOLLOW_ROW = [Key_char CHR ''F'']"
definition SEARCH :: "Key list" where
  "SEARCH = [Key_named ''F3'' KEY_F3, Key_char CHR ''/'']"
definition FILTER :: "Key list" where
  "FILTER = [Key_named ''F4'' KEY_F4, Key_char (CHR 0x5C)]"
definition TOGGLE_SELECT :: "Key list" where
  "TOGGLE_SELECT = [Key_char CHR ''s'']"
definition UN_SELECT_ALL :: "Key list" where
  "UN_SELECT_ALL = [Key_char CHR ''U'']"
definition QUIT :: "Key list" where
  "QUIT = [Key_named ''F10'' KEY_F10, Key_char CHR ''q'']"
definition CANCEL :: "Key list" where
  "CANCEL = [Key_named ''esc'' KEY_ESCAPE]"
definition ENTER :: "Key list" where
  "ENTER = [Key_named ''enter'' 10]"
definition MOVE_UP :: "Key list" where
  "MOVE_UP = [Key_named ''up'' KEY_UP]"
definition MOVE_DOWN :: "Key list" where
  "MOVE_DOWN = [Key_named ''down'' KEY_DOWN]"
definition MOVE_LEFT :: "Key list" where
  "MOVE_LEFT = [Key_named ''left'' KEY_LEFT]"
definition MOVE_RIGHT :: "Key list" where
  "MOVE_RIGHT = [Key_named ''right'' KEY_RIGHT]"

text \<open>
  \<^verbatim>\<open>event.key_code in Keys.X\<close>: the list holds \<^verbatim>\<open>Key\<close> objects, and \<^verbatim>\<open>Key.__eq__\<close>
  compares the key's value with the code.
\<close>

definition key_in :: "int \<Rightarrow> Key list \<Rightarrow> bool" where
  "key_in k ks = (\<exists>key \<in> set ks. key_value key = k)"

section \<open>Downloads and the collaborator\<close>

text \<open>
  Modelled from the spec: the \<^verbatim>\<open>Download\<close> class lives in a module that is not
  among the sources. A task has an identifier, a status among active, waiting,
  paused, error and complete, a numeric progress, a size, transfer rates, an
  estimated time remaining and a display name. A download is modelled as the record
  of the values the interface reads from it: the attributes used as sort keys and
  the strings returned by its text methods.
\<close>

record download =
  gid :: string
  status :: string
  progress :: real
  progress_string :: string
  total_length :: int
  total_length_string :: string
  download_speed :: int
  download_speed_string :: string
  upload_speed :: int
  upload_speed_string :: string
  eta :: int
  eta_string :: string
  name :: string

text \<open>
  Modelled from the spec: \<^verbatim>\<open>is_active\<close>, \<^verbatim>\<open>is_waiting\<close> and \<^verbatim>\<open>is_paused\<close> are
  properties of the absent \<^verbatim>\<open>Download\<close> class; they test the status.
\<close>

definition is_active :: "download \<Rightarrow> bool" where
  "is_active d = (status d = ''active'')"

definition is_waiting :: "download \<Rightarrow> bool" where
  "is_waiting d = (status d = ''waiting'')"

definition is_paused :: "download \<Rightarrow> bool" where
  "is_paused d = (status d = ''paused'')"

text \<open>
  Modelled from the spec: \<^verbatim>\<open>Download.__eq__\<close> is absent too. The followed relation
  is resolved by identity key, the task id, so two downloads are equal when their
  gids are.
\<close>

definition download_eq :: "download \<Rightarrow> download \<Rightarrow> bool" where
  "download_eq d e = (gid d = gid e)"

text \<open>
  The commands the interface sends to the collaborator, through a download object
  (\<^verbatim>\<open>pause\<close>, \<^verbatim>\<open>resume\<close>, \<^verbatim>\<open>move_up\<close>, \<^verbatim>\<open>move_down\<close>,
  \<^verbatim>\<open>remove(force, files)\<close>) or through \<^verbatim>\<open>self.api\<close> (\<^verbatim>\<open>autopurge\<close>).
\<close>

datatype command =
    Pause download
  | Resume download
  | MoveUp download
  | MoveDown download
  | Remove download bool bool
  | Autopurge

section \<open>Columns\<close>

record Column =
  header :: string
  padding :: string

definition columns_order :: "string list" where
  "columns_order =
     [''gid'', ''status'', ''progress'', ''size'', ''down_speed'', ''up_speed'', ''eta'', ''name'']"

definition columns :: "(string \<times> Column) list" where
  "columns =
     [(''gid'', \<lparr>header = ''GID'', padding = ''>16''\<rparr>),
      (''status'', \<lparr>header = ''STATUS'', padding = ''<9''\<rparr>),
      (''progress'', \<lparr>header = ''PROGRESS'', padding = ''>8''\<rparr>),
      (''size'', \<lparr>header = ''SIZE'', padding = ''>11''\<rparr>),
      (''down_speed'', \<lparr>header = ''DOWN_SPEED'', padding = ''>13''\<rparr>),
      (''up_speed'', \<lparr>header = ''UP_SPEED'', padding = ''>13''\<rparr>),
      (''eta'', \<lparr>header = ''ETA'', padding = ''>8''\<rparr>),
      (''name'', \<lparr>header = ''NAME'', padding = ''100%''\<rparr>)]"

text \<open>The \<^verbatim>\<open>get_text\<close> function of each column.\<close>

definition get_text :: "string \<Rightarrow> download \<Rightarrow> string" where
  "get_text c d =
     (if c = ''gid'' then gid d
      else if c = ''status'' then status d
      else if c = ''progress'' then progress_string d
      else if c = ''size'' then total_length_string d
      else if c = ''down_speed'' then download_speed_string d
      else if c = ''up_speed'' then upload_speed_string d
      else if c = ''eta'' then eta_string d
      else name d)"

text \<open>
  \<^verbatim>\<open>sorted(xs, key=f, reverse=r)\<close>: a stable sort; with \<^verbatim>\<open>reverse=True\<close> the keys
  descend and elements with equal keys still keep their original order.
\<close>

definition py_sorted :: "('a \<Rightarrow> 'k::linorder) \<Rightarrow> bool \<Rightarrow> 'a list \<Rightarrow> 'a list" where
  "py_sorted f r xs = (if r then rev (sort_key f (rev xs)) else sort_key f xs)"

text \<open>
  Sorting with the \<^verbatim>\<open>get_sort\<close> function of a column. The keys of different columns
  have different types, so the sort is chosen column by column.
\<close>

definition sorted_by :: "string \<Rightarrow> bool \<Rightarrow> download list \<Rightarrow> download list" where
  "sorted_by c r ds =
     (if c = ''gid'' then py_sorted gid r ds
      else if c = ''status'' then py_sorted status r ds
      else if c = ''progress'' then py_sorted progress r ds
      else if c = ''size'' then py_sorted total_length r ds
      else if c = ''down_speed'' then py_sorted download_speed r ds
      else if c = ''up_speed'' then py_sorted upload_speed r ds
      else if c = ''eta'' then py_sorted eta r ds
      else py_sorted name r ds)"

section \<open>The interface state\<close>

datatype State = State_MAIN | State_HELP | State_SETUP | State_REMOVE_ASK | State_SELECT_SORT

text \<open>
  The attributes of \<^verbatim>\<open>Interface\<close> that the event handlers and the refresh read or
  write. Three fields record effects: \<^verbatim>\<open>api_calls\<close> is the list of commands sent to
  the collaborator so far, \<^verbatim>\<open>api_raises\<close> tells, from the commands sent before,
  whether a command raises, and \<^verbatim>\<open>logged\<close> is what \<^verbatim>\<open>logger.exception\<close> received.
  The screen and the scroller are written by the painting routines only.
\<close>

record interface =
  state :: State
  frame :: int
  focused :: int
  side_focused :: int
  sort_index :: int
  reverse :: bool
  x_scroll :: int
  x_offset :: int
  y_offset :: int
  row_offset :: int
  refresh :: bool
  width :: int
  height :: int
  data :: "download list"
  rows :: "string list list"
  follow :: "download option"
  bounds :: "(int \<times> int) list"
  last_remove_choice :: "int option"
  api_raises :: "command list \<Rightarrow> command \<Rightarrow> bool"
  api_calls :: "command list"
  logged :: "exn list"

definition frames :: int where
  "frames = 200"

text \<open>
  The class-level defaults. \<^verbatim>\<open>width\<close> and \<^verbatim>\<open>height\<close> start as \<^verbatim>\<open>None\<close> and are set
  by \<^verbatim>\<open>set_screen\<close> before anything reads them; 0 stands for that here.
\<close>

definition interface_init :: "(command list \<Rightarrow> command \<Rightarrow> bool) \<Rightarrow> interface" where
  "interface_init api =
     \<lparr>state = State_MAIN, frame = 0, focused = 0, side_focused = 0, sort_index = 2,
      reverse = True, x_scroll = 0, x_offset = 0, y_offset = 0, row_offset = 0,
      refresh = False, width = 0, height = 0, data = [], rows = [], follow = None,
      bounds = [], last_remove_choice = None, api_raises = api, api_calls = [],
      logged = []\<rparr>"

definition remove_ask_header :: string where
  "remove_ask_header = ''Remove:''"

definition remove_ask_rows :: "(string \<times> bool \<times> bool) list" where
  "remove_ask_rows =
     [(''Remove'', False, False),
      (''Remove with files'', False, True),
      (''Force remove'', True, False),
      (''Force remove with files'', True, True)]"

definition select_sort_header :: string where
  "select_sort_header = ''Select sort:''"

definition select_sort_rows :: "string list" where
  "select_sort_rows = columns_order"

text \<open>A handler returns the exception it raised, if any, and the state it left.\<close>

type_synonym outcome = "exn option \<times> interface"

text \<open>A call into the collaborator: recorded, and raising when the collaborator does.\<close>

definition call :: "command \<Rightarrow> interface \<Rightarrow> outcome" where
  "call c st =
     (if api_raises st (api_calls st) c then Some CollaboratorError else None,
      st\<lparr>api_calls := api_calls st @ [c]\<rparr>)"

section \<open>Event handlers\<close>

datatype event = KeyboardEvent int | MouseEvent int int int

text \<open>
  \<^verbatim>\<open>max\<close> over a sequence of lengths. Python raises on an empty sequence; the two
  sequences it is applied to below are non-empty literals.
\<close>

fun max_list :: "int list \<Rightarrow> int" where
  "max_list [] = 0"
| "max_list [v] = v"
| "max_list (v # vs) = max v (max_list vs)"

definition width_remove_ask :: int where
  "width_remove_ask =
     max (int (length remove_ask_header)) (max_list (map (\<lambda>row. int (length (fst row))) remove_ask_rows))"

definition width_select_sort :: int where
  "width_select_sort = max_list (map (\<lambda>n. int (length n)) (columns_order @ [select_sort_header]))"

text \<open>
  \<^verbatim>\<open>follow_focused\<close> returns a truth value, or raises in the subscript when
  \<^verbatim>\<open>focused\<close> is below \<^verbatim>\<open>-len(data)\<close>.
\<close>

definition follow_focused :: "interface \<Rightarrow> (exn + bool) \<times> interface" where
  "follow_focused st =
     (if focused st < int (length (data st)) then
        (case py_index (data st) (focused st) of
           Inl e \<Rightarrow> (Inl e, st)
         | Inr d \<Rightarrow> (Inr True, st\<lparr>follow := Some d\<rparr>))
      else (Inr False, st))"

definition process_keyboard_event_main :: "int \<Rightarrow> interface \<Rightarrow> outcome" where
  "process_keyboard_event_main k st =
     (if key_in k MOVE_UP then
        (if focused st > 0 then
           let st1 = st\<lparr>focused := focused st - 1\<rparr>;
               st2 = (if focused st1 < row_offset st1 then st1\<lparr>row_offset := focused st1\<rparr>
                      else if focused st1 \<ge> row_offset st1 + (height st1 - 1)
                      then st1\<lparr>row_offset := focused st1 + 1 - (height st1 - 1)\<rparr>
                      else st1)
           in (None, st2\<lparr>follow := None, refresh := True\<rparr>)
         else (None, st))
      else if key_in k MOVE_DOWN then
        (if focused st < int (length (rows st)) - 1 then
           let st1 = st\<lparr>focused := focused st + 1\<rparr>;
               st2 = (if focused st1 - row_offset st1 \<ge> height st1 - 1
                      then st1\<lparr>row_offset := focused st1 + 1 - (height st1 - 1)\<rparr>
                      else st1)
           in (None, st2\<lparr>follow := None, refresh := True\<rparr>)
         else (None, st))
      else if key_in k MOVE_LEFT then
        (if x_scroll st > 0
         then (None, st\<lparr>x_scroll := max 0 (x_scroll st - 5), refresh := True\<rparr>)
         else (None, st))
      else if key_in k MOVE_RIGHT then
        (None, st\<lparr>x_scroll := x_scroll st + 5, refresh := True\<rparr>)
      else if key_in k HELP then
        (None, st\<lparr>state := State_HELP, refresh := True\<rparr>)
      else if key_in k SETUP then (None, st)
      else if key_in k TOGGLE_RESUME_PAUSE then
        (case py_index (data st) (focused st) of
           Inl e \<Rightarrow> (Some e, st)
         | Inr d \<Rightarrow>
             if is_active d \<or> is_waiting d then call (Pause d) st
             else if is_paused d then call (Resume d) st
             else (None, st))
      else if key_in k PRIORITY_UP then
        (case py_index (data st) (focused st) of
           Inl e \<Rightarrow> (Some e, st)
         | Inr d \<Rightarrow>
             if \<not> is_active d then
               (case call (MoveUp d) st of
                  (Some e, st') \<Rightarrow> (Some e, st')
                | (None, st') \<Rightarrow> (None, st'\<lparr>follow := Some d\<rparr>))
             else (None, st))
      else if key_in k PRIORITY_DOWN then
        (case py_index (data st) (focused st) of
           Inl e \<Rightarrow> (Some e, st)
         | Inr d \<Rightarrow>
             if \<not> is_active d then
               (case call (MoveDown d) st of
                  (Some e, st') \<Rightarrow> (Some e, st')
                | (None, st') \<Rightarrow> (None, st'\<lparr>follow := Some d\<rparr>))
             else (None, st))
      else if key_in k REVERSE_SORT then
        (None, st\<lparr>reverse := \<not> reverse st, refresh := True\<rparr>)
      else if key_in k NEXT_SORT then
        (if sort_index st < int (length columns) - 1
         then (None, st\<lparr>sort_index := sort_index st + 1, refresh := True\<rparr>)
         else (None, st))
      else if key_in k PREVIOUS_SORT then
        (if sort_index st > 0
         then (None, st\<lparr>sort_index := sort_index st - 1, refresh := True\<rparr>)
         else (None, st))
      else if key_in k SELECT_SORT then
        (None, st\<lparr>state := State_SELECT_SORT, side_focused := sort_index st,
                  x_offset := width_select_sort + 1, refresh := True\<rparr>)
      else if key_in k REMOVE_ASK then
        (case follow_focused st of
           (Inl e, st') \<Rightarrow> (Some e, st')
         | (Inr True, st') \<Rightarrow>
             (None,
              (let st1 = st'\<lparr>state := State_REMOVE_ASK, x_offset := width_remove_ask + 1\<rparr>;
                   st2 = (case last_remove_choice st1 of
                            Some c \<Rightarrow> st1\<lparr>side_focused := c\<rparr>
                          | None \<Rightarrow> st1)
               in st2\<lparr>refresh := True\<rparr>))
         | (Inr False, st') \<Rightarrow> (None, st'))
      else if key_in k TOGGLE_EXPAND_COLLAPSE then (None, st)
      else if key_in k TOGGLE_EXPAND_COLLAPSE_ALL then (None, st)
      else if key_in k AUTOCLEAR then call Autopurge st
      else if key_in k FOLLOW_ROW then
        (case follow_focused st of
           (Inl e, st') \<Rightarrow> (Some e, st')
         | (Inr b, st') \<Rightarrow> (None, st'))
      else if key_in k SEARCH then (None, st)
      else if key_in k FILTER then (None, st)
      else if key_in k TOGGLE_SELECT then (None, st)
      else if key_in k UN_SELECT_ALL then (None, st)
      else if key_in k QUIT then (Some Exit, st)
      else (None, st))"

definition process_keyboard_event_help :: "int \<Rightarrow> interface \<Rightarrow> outcome" where
  "process_keyboard_event_help k st = (None, st\<lparr>state := State_MAIN, refresh := True\<rparr>)"

definition process_keyboard_event_setup :: "int \<Rightarrow> interface \<Rightarrow> outcome" where
  "process_keyboard_event_setup k st = (None, st)"

definition process_keyboard_event_remove_ask :: "int \<Rightarrow> interface \<Rightarrow> outcome" where
  "process_keyboard_event_remove_ask k st =
     (if key_in k CANCEL then
        (None, st\<lparr>state := State_MAIN, x_offset := 0, refresh := True\<rparr>)
      else if key_in k ENTER then
        (case (case follow st of
                 Some d \<Rightarrow>
                   (case py_index remove_ask_rows (side_focused st) of
                      Inl e \<Rightarrow> (Some e, st)
                    | Inr (label, force, files) \<Rightarrow>
                        (case call (Remove d force files) st of
                           (Some e, st') \<Rightarrow> (Some e, st')
                         | (None, st') \<Rightarrow> (None, st'\<lparr>follow := None\<rparr>)))
               | None \<Rightarrow> (None, st)) of
           (Some e, st') \<Rightarrow> (Some e, st')
         | (None, st') \<Rightarrow>
             (None, st'\<lparr>last_remove_choice := Some (side_focused st'), state := State_MAIN,
                        x_offset := 0, frame := 0\<rparr>))
      else if key_in k MOVE_UP then
        (if side_focused st > 0
         then (None, st\<lparr>side_focused := side_focused st - 1, refresh := True\<rparr>)
         else (None, st))
      else if key_in k MOVE_DOWN then
        (if side_focused st < int (length remove_ask_rows) - 1
         then (None, st\<lparr>side_focused := side_focused st + 1, refresh := True\<rparr>)
         else (None, st))
      else (None, st))"

definition process_keyboard_event_select_sort :: "int \<Rightarrow> interface \<Rightarrow> outcome" where
  "process_keyboard_event_select_sort k st =
     (if key_in k CANCEL then
        (None, st\<lparr>state := State_MAIN, x_offset := 0, refresh := True\<rparr>)
      else if key_in k ENTER then
        (None, st\<lparr>sort_index := side_focused st, state := State_MAIN, x_offset := 0,
                  refresh := True\<rparr>)
      else if key_in k MOVE_UP then
        (if side_focused st > 0
         then (None, st\<lparr>side_focused := side_focused st - 1, refresh := True\<rparr>)
         else (None, st))
      else if key_in k MOVE_DOWN then
        (if side_focused st < int (length select_sort_rows) - 1
         then (None, st\<lparr>side_focused := side_focused st + 1, refresh := True\<rparr>)
         else (None, st))
      else (None, st))"

definition process_keyboard_event :: "int \<Rightarrow> interface \<Rightarrow> outcome" where
  "process_keyboard_event k st =
     (case state st of
        State_MAIN \<Rightarrow> process_keyboard_event_main k st
      | State_HELP \<Rightarrow> process_keyboard_event_help k st
      | State_SETUP \<Rightarrow> process_keyboard_event_setup k st
      | State_REMOVE_ASK \<Rightarrow> process_keyboard_event_remove_ask k st
      | State_SELECT_SORT \<Rightarrow> process_keyboard_event_select_sort k st)"

text \<open>
  \<^verbatim>\<open>get_column_at_x\<close>: the index of the first pair with
  \<^verbatim>\<open>bound[0] <= x <= bound[1]\<close>, and \<^verbatim>\<open>ValueError\<close> when there is none.
\<close>

fun column_from :: "int \<Rightarrow> (int \<times> int) list \<Rightarrow> int \<Rightarrow> exn + int" where
  "column_from i [] px = Inl ValueError"
| "column_from i (bound # bs) px =
     (if fst bound \<le> px \<and> px \<le> snd bound then Inr i else column_from (i + 1) bs px)"

definition get_column_at_x :: "interface \<Rightarrow> int \<Rightarrow> exn + int" where
  "get_column_at_x st px = column_from 0 (bounds st) px"

definition process_mouse_event_main :: "int \<Rightarrow> int \<Rightarrow> int \<Rightarrow> interface \<Rightarrow> outcome" where
  "process_mouse_event_main px py btns st =
     (if btns AND LEFT_CLICK \<noteq> 0 then
        (if py = 0 then
           (case get_column_at_x st px of
              Inl e \<Rightarrow> (Some e, st)
            | Inr new_sort \<Rightarrow>
                (None,
                 (if new_sort = sort_index st then st\<lparr>reverse := \<not> reverse st\<rparr>
                  else st\<lparr>sort_index := new_sort\<rparr>)\<lparr>refresh := True\<rparr>))
         else
           (None,
            st\<lparr>focused := min (py - 1 + row_offset st) (int (length (rows st)) - 1),
               refresh := True\<rparr>))
      else (None, st))"

definition process_mouse_event :: "int \<Rightarrow> int \<Rightarrow> int \<Rightarrow> interface \<Rightarrow> outcome" where
  "process_mouse_event px py btns st =
     (case state st of
        State_MAIN \<Rightarrow> process_mouse_event_main px py btns st
      | State_HELP \<Rightarrow> (None, st)
      | State_SETUP \<Rightarrow> (None, st)
      | State_REMOVE_ASK \<Rightarrow> (None, st)
      | State_SELECT_SORT \<Rightarrow> (None, st))"

definition process_event :: "event \<Rightarrow> interface \<Rightarrow> outcome" where
  "process_event ev st =
     (case ev of
        KeyboardEvent k \<Rightarrow> process_keyboard_event k st
      | MouseEvent px py btns \<Rightarrow> process_mouse_event px py btns st)"

section \<open>Screen set-up, data refresh and sorting\<close>

text \<open>
  \<^verbatim>\<open>int(s)\<close> on a string of decimal digits. Python's \<^verbatim>\<open>int\<close> accepts more (signs,
  blanks, underscores); the paddings of the column table are plain digits once the
  alignment characters are stripped, and anything else is taken to raise.
\<close>

definition is_digit :: "char \<Rightarrow> bool" where
  "is_digit c = (CHR ''0'' \<le> c \<and> c \<le> CHR ''9'')"

definition py_int :: "string \<Rightarrow> exn + int" where
  "py_int s =
     (if s \<noteq> [] \<and> list_all is_digit s
      then Inr (foldl (\<lambda>a c. 10 * a + (int (of_char c) - 48)) 0 s)
      else Inl ValueError)"

definition lstrip :: "string \<Rightarrow> string \<Rightarrow> string" where
  "lstrip chars s = dropWhile (\<lambda>c. c \<in> set chars) s"

text \<open>
  The loop of \<^verbatim>\<open>set_screen\<close> over \<^verbatim>\<open>columns_order\<close>. An exception leaves the bounds
  appended so far.
\<close>

fun set_bounds :: "string list \<Rightarrow> interface \<Rightarrow> outcome" where
  "set_bounds [] st = (None, st)"
| "set_bounds (column_name # cs) st =
     (case map_of columns column_name of
        None \<Rightarrow> (Some KeyError, st)
      | Some column \<Rightarrow>
          if padding column = ''100%'' then
            (case py_index (bounds st) (- 1) of
               Inl e \<Rightarrow> (Some e, st)
             | Inr b \<Rightarrow> set_bounds cs (st\<lparr>bounds := bounds st @ [(snd b + 1, width st)]\<rparr>))
          else
            (case py_int (lstrip ''<>=^'' (padding column)) of
               Inl e \<Rightarrow> (Some e, st)
             | Inr p \<Rightarrow>
                 if bounds st = [] then set_bounds cs (st\<lparr>bounds := [(0, p)]\<rparr>)
                 else
                   (case py_index (bounds st) (- 1) of
                      Inl e \<Rightarrow> (Some e, st)
                    | Inr b \<Rightarrow>
                        set_bounds cs
                          (st\<lparr>bounds := bounds st @ [(snd b + 1, snd b + 1 + p)]\<rparr>))))"

text \<open>\<^verbatim>\<open>screen.dimensions\<close> is the pair (height, width).\<close>

definition set_screen :: "int \<times> int \<Rightarrow> interface \<Rightarrow> outcome" where
  "set_screen dims st =
     set_bounds columns_order (st\<lparr>height := fst dims, width := snd dims, bounds := []\<rparr>)"

definition sort_data :: "interface \<Rightarrow> outcome" where
  "sort_data st =
     (case py_index columns_order (sort_index st) of
        Inl e \<Rightarrow> (Some e, st)
      | Inr c \<Rightarrow> (None, st\<lparr>data := sorted_by c (reverse st) (data st)\<rparr>))"

text \<open>
  \<^verbatim>\<open>update_data\<close>: \<^verbatim>\<open>get_data\<close> asks the collaborator for the downloads, which
  either arrive or raise; then the data are sorted.
\<close>

definition update_data :: "exn + download list \<Rightarrow> interface \<Rightarrow> outcome" where
  "update_data fetched st =
     (case fetched of
        Inl e \<Rightarrow> (Some e, st)
      | Inr ds \<Rightarrow> sort_data (st\<lparr>data := ds\<rparr>))"

text \<open>\<^verbatim>\<open>xs.index(v)\<close>: the first position holding an equal element, or \<^verbatim>\<open>ValueError\<close>.\<close>

fun index_from :: "int \<Rightarrow> download list \<Rightarrow> download \<Rightarrow> exn + int" where
  "index_from i [] v = Inl ValueError"
| "index_from i (d # ds) v = (if download_eq d v then Inr i else index_from (i + 1) ds v)"

definition list_index :: "download list \<Rightarrow> download \<Rightarrow> exn + int" where
  "list_index ds v = index_from 0 ds v"

definition update_rows :: "interface \<Rightarrow> outcome" where
  "update_rows st =
     (let st1 = st\<lparr>rows := map (\<lambda>item. map (\<lambda>c. get_text c item) columns_order) (data st)\<rparr>
      in case follow st1 of
           Some d \<Rightarrow>
             (case list_index (data st1) d of
                Inl e \<Rightarrow> (Some e, st1)
              | Inr i \<Rightarrow> (None, st1\<lparr>focused := i\<rparr>))
         | None \<Rightarrow> (None, st1))"

section \<open>The render loop\<close>

text \<open>
  Draining the queue of pending events of one frame: \<^verbatim>\<open>Exit\<close> makes \<^verbatim>\<open>run\<close>
  return, any other exception is logged and the next event is fetched.
\<close>

datatype drained = Exited interface | Drained interface

fun drain :: "event list \<Rightarrow> interface \<Rightarrow> drained" where
  "drain [] st = Drained st"
| "drain (ev # evs) st =
     (case process_event ev st of
        (None, st') \<Rightarrow> drain evs st'
      | (Some e, st') \<Rightarrow>
          if e = Exit then Exited st'
          else drain evs (st'\<lparr>logged := logged st' @ [e]\<rparr>))"

text \<open>
  The result of \<^verbatim>\<open>run\<close>, or of a part of it: it has returned a truth value, or it is
  still looping when the recorded input ends.
\<close>

datatype run_result = Returned bool interface | Running interface

text \<open>
  One iteration of the inner loop, given the events pending at its start and what
  \<^verbatim>\<open>get_data\<close> would answer. The painting routines write to the screen and to the
  scroller only, so they are left out; an exception that leaves the iteration reaches
  the handler around the outer loop, which logs it and returns \<^verbatim>\<open>False\<close>.
\<close>

definition refresh_data :: "exn + download list \<Rightarrow> interface \<Rightarrow> outcome" where
  "refresh_data fetched st =
     (case update_data fetched st of
        (Some e, st1) \<Rightarrow> (Some e, st1)
      | (None, st1) \<Rightarrow>
          (case update_rows st1 of
             (Some e, st2) \<Rightarrow> (Some e, st2)
           | (None, st2) \<Rightarrow> (None, st2\<lparr>refresh := True\<rparr>)))"

definition resort :: "interface \<Rightarrow> outcome" where
  "resort st =
     (case sort_data st of
        (Some e, st1) \<Rightarrow> (Some e, st1)
      | (None, st1) \<Rightarrow> update_rows st1)"

definition frame_step :: "event list \<Rightarrow> exn + download list \<Rightarrow> interface \<Rightarrow> run_result" where
  "frame_step evs fetched st =
     (let previous_sort = (sort_index st, reverse st)
      in case drain evs (st\<lparr>refresh := False\<rparr>) of
           Exited s \<Rightarrow> Returned True s
         | Drained s1 \<Rightarrow>
             (case (if frame s1 = 0 then refresh_data fetched s1 else (None, s1)) of
                (Some e, s2) \<Rightarrow> Returned False (s2\<lparr>logged := logged s2 @ [e]\<rparr>)
              | (None, s2) \<Rightarrow>
                  (case (if refresh s2 then
                           (if (sort_index s2, reverse s2) \<noteq> previous_sort \<and> frame s2 \<noteq> 0
                            then resort s2 else (None, s2))
                         else (None, s2)) of
                     (Some e, s3) \<Rightarrow> Returned False (s3\<lparr>logged := logged s3 @ [e]\<rparr>)
                   | (None, s3) \<Rightarrow> Running (s3\<lparr>frame := (frame s3 + 1) mod frames\<rparr>))))"

text \<open>
  What the terminal feeds the loop: \<^verbatim>\<open>Resized h w\<close> when \<^verbatim>\<open>has_resized\<close> answers
  true and the next screen has these dimensions, \<^verbatim>\<open>Frame evs fetched\<close> when it
  answers false and the iteration runs. \<^verbatim>\<open>run\<close> starts by acquiring a screen.
\<close>

datatype tick = Resized int int | Frame "event list" "exn + download list"

fun run_from :: "tick list \<Rightarrow> interface \<Rightarrow> run_result" where
  "run_from [] st = Running st"
| "run_from (Resized h w # ts) st =
     (case set_screen (h, w) st of
        (Some e, s) \<Rightarrow> Returned False (s\<lparr>logged := logged s @ [e]\<rparr>)
      | (None, s) \<Rightarrow> run_from ts (s\<lparr>frame := 0\<rparr>))"
| "run_from (Frame evs fetched # ts) st =
     (case frame_step evs fetched st of
        Running s \<Rightarrow> run_from ts s
      | Returned b s \<Rightarrow> Returned b s)"

definition run :: "int \<times> int \<Rightarrow> tick list \<Rightarrow> interface \<Rightarrow> run_result" where
  "run dims ts st = run_from (Resized (fst dims) (snd dims) # ts) st"

section \<open>Notions used to state the properties\<close>

text \<open>
  The focused row exists and lies in the window of \<^verbatim>\<open>height - 1\<close> rows that starts
  at \<^verbatim>\<open>row_offset\<close>.
\<close>

definition focus_visible :: "interface \<Rightarrow> bool" where
  "focus_visible st =
     (rows st \<noteq> [] \<and> 0 \<le> focused st \<and> focused st < int (length (rows st))
      \<and> row_offset st \<le> focused st \<and> focused st < row_offset st + (height st - 1))"

definition is_up_down :: "event \<Rightarrow> bool" where
  "is_up_down ev =
     (case ev of
        KeyboardEvent k \<Rightarrow> key_in k MOVE_UP \<or> key_in k MOVE_DOWN
      | MouseEvent px py btns \<Rightarrow> False)"

text \<open>
  Processing one event the way the loop does when the event does not ask to exit:
  the handler runs, and an exception it raises is appended to the log.
\<close>

definition process_and_log :: "interface \<Rightarrow> event \<Rightarrow> interface" where
  "process_and_log st ev =
     (case process_event ev st of
        (None, st') \<Rightarrow> st'
      | (Some e, st') \<Rightarrow> st'\<lparr>logged := logged st' @ [e]\<rparr>)"

text \<open>
  A key event followed by the re-sort that the loop performs once the drained events
  have changed the sort column or direction: \<^verbatim>\<open>sort_data\<close>, then \<^verbatim>\<open>update_rows\<close>.
\<close>

definition event_then_resort :: "int \<Rightarrow> interface \<Rightarrow> outcome" where
  "event_then_resort k st =
     (case process_event (KeyboardEvent k) st of
        (Some e, s) \<Rightarrow> (Some e, s)
      | (None, s) \<Rightarrow> resort s)"

text \<open>
  The bounds read as the spec words them, as half-open pairs: the positions of the
  pairs whose \<open>[start, end)\<close> contains the position.
\<close>

definition half_open_hits :: "(int \<times> int) list \<Rightarrow> int \<Rightarrow> nat list" where
  "half_open_hits bs px = filter (\<lambda>i. fst (bs ! i) \<le> px \<and> px < snd (bs ! i)) [0..<length bs]"

text \<open>The positions of the pairs that contain the position, both ends included.\<close>

definition closed_hits :: "(int \<times> int) list \<Rightarrow> int \<Rightarrow> nat list" where
  "closed_hits bs px = filter (\<lambda>i. fst (bs ! i) \<le> px \<and> px \<le> snd (bs ! i)) [0..<length bs]"

subsection \<open>Example states\<close>

definition never_raises :: "command list \<Rightarrow> command \<Rightarrow> bool" where
  "never_raises history c = False"

definition example_download :: "string \<Rightarrow> string \<Rightarrow> int \<Rightarrow> string \<Rightarrow> download" where
  "example_download g s n nm =
     \<lparr>gid = g, status = s, progress = 0, progress_string = ''0%'', total_length = n,
      total_length_string = ''?'', download_speed = 0, download_speed_string = ''0 B/s'',
      upload_speed = 0, upload_speed_string = ''0 B/s'', eta = 0, eta_string = ''-'',
      name = nm\<rparr>"

definition example_downloads :: "download list" where
  "example_downloads =
     [example_download ''a1'' ''active'' 10 ''one'',
      example_download ''b2'' ''paused'' 20 ''two'',
      example_download ''c3'' ''error'' 10 ''three'']"

text \<open>
  The state after \<^verbatim>\<open>set_screen\<close> on a terminal of 24 rows by 100 columns and a first
  refresh that fetched the example downloads.
\<close>

definition example_interface :: interface where
  "example_interface =
     (interface_init never_raises)
       \<lparr>frame := 1, width := 100, height := 24,
        bounds := [(0, 16), (17, 26), (27, 35), (36, 47), (48, 61), (62, 75), (76, 84), (85, 100)],
        data := example_downloads,
        rows := map (\<lambda>item. map (\<lambda>c. get_text c item) columns_order) example_downloads\<rparr>"

section \<open>Properties of the scroll writer\<close>

lemma print_at_written:
  "0 \<le> scroll h \<Longrightarrow>
   fst (print_at text x y p h) = max 0 (int (length text) - scroll h)"
  by (simp add: print_at_def py_slice_from_def Let_def)

lemma print_at_scroll:
  "0 \<le> scroll h \<Longrightarrow>
   scroll (snd (print_at text x y p h)) = max 0 (scroll h - int (length text))"
  by (simp add: print_at_def Let_def)

lemma print_seq_sum:
  "0 \<le> scroll h \<Longrightarrow>
   sum_list (map fst (print_seq cs h)) = max 0 (texts_length cs - scroll h)"
proof (induction cs arbitrary: h)
  case Nil
  then show ?case by (simp add: texts_length_def)
next
  case (Cons c cs)
  obtain t x y p where c: "c = (t, x, y, p)" by (cases c) auto
  obtain w h' where pa: "print_at t x y p h = (w, h')" by (cases "print_at t x y p h")
  have w: "w = max 0 (int (length t) - scroll h)"
    using print_at_written [OF Cons.prems, of t x y p] pa by simp
  have s: "scroll h' = max 0 (scroll h - int (length t))"
    using print_at_scroll [OF Cons.prems, of t x y p] pa by simp
  have "0 \<le> scroll h'" using s by simp
  then have ih: "sum_list (map fst (print_seq cs h')) = max 0 (texts_length cs - scroll h')"
    by (rule Cons.IH)
  have tl: "texts_length (c # cs) = int (length t) + texts_length cs"
    by (simp add: texts_length_def c)
  have nn: "0 \<le> texts_length cs"
    unfolding texts_length_def by (rule sum_list_nonneg) auto
  show ?case
    using ih w s tl nn Cons.prems by (simp add: c pa max_def)
qed

lemma print_seq_scroll_nonneg:
  "0 \<le> scroll h \<Longrightarrow> \<forall>r \<in> set (print_seq cs h). 0 \<le> snd r"
proof (induction cs arbitrary: h)
  case Nil
  then show ?case by simp
next
  case (Cons c cs)
  obtain t x y p where c: "c = (t, x, y, p)" by (cases c) auto
  obtain w h' where pa: "print_at t x y p h = (w, h')" by (cases "print_at t x y p h")
  have s: "scroll h' = max 0 (scroll h - int (length t))"
    using print_at_scroll [OF Cons.prems, of t x y p] pa by simp
  then have "0 \<le> scroll h'" by simp
  then show ?case using Cons.IH [of h'] by (simp add: c pa)
qed

text \<open>
  C1. For a base scroll \<open>S \<ge> 0\<close> set with \<^verbatim>\<open>set_scroll\<close> and any sequence of
  \<^verbatim>\<open>print_at\<close> calls whose texts have total length \<open>L\<close>, the values returned add up
  to \<open>max 0 (L - S)\<close>, and the scroll counter is non-negative after every call (and
  before the first one).
\<close>

theorem scroll_writer_total:
  "0 \<le> S \<Longrightarrow>
   sum_list (map fst (print_seq cs (set_scroll S h))) = max 0 (texts_length cs - S)
   \<and> 0 \<le> scroll (set_scroll S h)
   \<and> (\<forall>r \<in> set (print_seq cs (set_scroll S h)). 0 \<le> snd r)"
  using print_seq_sum [of "set_scroll S h" cs] print_seq_scroll_nonneg [of "set_scroll S h" cs]
  by (simp add: set_scroll_def)

theorem scroll_writer_total_witness:
  "(0::int) \<le> 5
   \<and> map fst (print_seq [(''GID '', 0, 0, Single (0, 1, 2)), (''STATUS '', 4, 0, Single (0, 1, 2)),
                          (''NAME'', 11, 0, PerChar [(7, 1, 0), (7, 1, 0), (7, 1, 0), (7, 1, 0)])]
                 (set_scroll 5 \<lparr>screen = [], scroll = 0\<rparr>)) = [0, 6, 4]
   \<and> sum_list (map fst (print_seq [(''GID '', 0, 0, Single (0, 1, 2)), (''STATUS '', 4, 0, Single (0, 1, 2)),
                          (''NAME'', 11, 0, PerChar [(7, 1, 0), (7, 1, 0), (7, 1, 0), (7, 1, 0)])]
                 (set_scroll 5 \<lparr>screen = [], scroll = 0\<rparr>)))
       = max 0 (texts_length [(''GID '', 0, 0, Single (0, 1, 2)), (''STATUS '', 4, 0, Single (0, 1, 2)),
                          (''NAME'', 11, 0, PerChar [(7, 1, 0), (7, 1, 0), (7, 1, 0), (7, 1, 0)])] - 5)"
  using scroll_writer_total [of 5
      "[(''GID '', 0, 0, Single (0, 1, 2)), (''STATUS '', 4, 0, Single (0, 1, 2)),
        (''NAME'', 11, 0, PerChar [(7, 1, 0), (7, 1, 0), (7, 1, 0), (7, 1, 0)])]"
      "\<lparr>screen = [], scroll = 0\<rparr>"]
  by (simp add: print_at_def set_scroll_def py_slice_from_def texts_length_def)

section \<open>Which key codes select which action\<close>

lemmas key_defs = key_in_def Key_named_def Key_char_def
  KEY_ESCAPE_def KEY_F1_def KEY_F2_def KEY_F3_def KEY_F4_def KEY_F6_def KEY_F7_def KEY_F8_def
  KEY_F9_def KEY_F10_def KEY_DELETE_def KEY_LEFT_def KEY_UP_def KEY_RIGHT_def KEY_DOWN_def

lemma key_in_MOVE_UP: "key_in k MOVE_UP \<longleftrightarrow> k = -204"
  by (auto simp: key_defs MOVE_UP_def)
lemma key_in_MOVE_DOWN: "key_in k MOVE_DOWN \<longleftrightarrow> k = -206"
  by (auto simp: key_defs MOVE_DOWN_def)
lemma key_in_MOVE_LEFT: "key_in k MOVE_LEFT \<longleftrightarrow> k = -203"
  by (auto simp: key_defs MOVE_LEFT_def)
lemma key_in_MOVE_RIGHT: "key_in k MOVE_RIGHT \<longleftrightarrow> k = -205"
  by (auto simp: key_defs MOVE_RIGHT_def)
lemma key_in_HELP: "key_in k HELP \<longleftrightarrow> k = -2 \<or> k = 104"
  by (auto simp: key_defs HELP_def)
lemma key_in_SETUP: "key_in k SETUP \<longleftrightarrow> k = -3"
  by (auto simp: key_defs SETUP_def)
lemma key_in_TOGGLE_RESUME_PAUSE: "key_in k TOGGLE_RESUME_PAUSE \<longleftrightarrow> k = 32"
  by (auto simp: key_defs TOGGLE_RESUME_PAUSE_def)
lemma key_in_PRIORITY_UP: "key_in k PRIORITY_UP \<longleftrightarrow> k = -8 \<or> k = 117 \<or> k = 91"
  by (auto simp: key_defs PRIORITY_UP_def)
lemma key_in_PRIORITY_DOWN: "key_in k PRIORITY_DOWN \<longleftrightarrow> k = -9 \<or> k = 100 \<or> k = 93"
  by (auto simp: key_defs PRIORITY_DOWN_def)
lemma key_in_REVERSE_SORT: "key_in k REVERSE_SORT \<longleftrightarrow> k = 73"
  by (auto simp: key_defs REVERSE_SORT_def)
lemma key_in_NEXT_SORT: "key_in k NEXT_SORT \<longleftrightarrow> k = 110 \<or> k = 62"
  by (auto simp: key_defs NEXT_SORT_def)
lemma key_in_PREVIOUS_SORT: "key_in k PREVIOUS_SORT \<longleftrightarrow> k = 112 \<or> k = 60"
  by (auto simp: key_defs PREVIOUS_SORT_def)
lemma key_in_SELECT_SORT: "key_in k SELECT_SORT \<longleftrightarrow> k = -7"
  by (auto simp: key_defs SELECT_SORT_def)
lemma key_in_REMOVE_ASK: "key_in k REMOVE_ASK \<longleftrightarrow> k = -10 \<or> k = -102"
  by (auto simp: key_defs REMOVE_ASK_def)
lemma key_in_TOGGLE_EXPAND_COLLAPSE: "key_in k TOGGLE_EXPAND_COLLAPSE \<longleftrightarrow> k = 120"
  by (auto simp: key_defs TOGGLE_EXPAND_COLLAPSE_def)
lemma key_in_TOGGLE_EXPAND_COLLAPSE_ALL: "key_in k TOGGLE_EXPAND_COLLAPSE_ALL \<longleftrightarrow> k = 88"
  by (auto simp: key_defs TOGGLE_EXPAND_COLLAPSE_ALL_def)
lemma key_in_AUTOCLEAR: "key_in k AUTOCLEAR \<longleftrightarrow> k = 99"
  by (auto simp: key_defs AUTOCLEAR_def)
lemma key_in_FOLLOW_ROW: "key_in k FOLLOW_ROW \<longleftrightarrow> k = 70"
  by (auto simp: key_defs FOLLOW_ROW_def)
lemma key_in_SEARCH: "key_in k SEARCH \<longleftrightarrow> k = -4 \<or> k = 47"
  by (auto simp: key_defs SEARCH_def)
lemma key_in_FILTER: "key_in k FILTER \<longleftrightarrow> k = -5 \<or> k = 92"
  by (auto simp: key_defs FILTER_def)
lemma key_in_TOGGLE_SELECT: "key_in k TOGGLE_SELECT \<longleftrightarrow> k = 115"
  by (auto simp: key_defs TOGGLE_SELECT_def)
lemma key_in_UN_SELECT_ALL: "key_in k UN_SELECT_ALL \<longleftrightarrow> k = 85"
  by (auto simp: key_defs UN_SELECT_ALL_def)
lemma key_in_QUIT: "key_in k QUIT \<longleftrightarrow> k = -11 \<or> k = 113"
  by (auto simp: key_defs QUIT_def)
lemma key_in_CANCEL: "key_in k CANCEL \<longleftrightarrow> k = -1"
  by (auto simp: key_defs CANCEL_def)
lemma key_in_ENTER: "key_in k ENTER \<longleftrightarrow> k = 10"
  by (auto simp: key_defs ENTER_def)

lemmas key_in_simps = key_in_MOVE_UP key_in_MOVE_DOWN key_in_MOVE_LEFT key_in_MOVE_RIGHT
  key_in_HELP key_in_SETUP key_in_TOGGLE_RESUME_PAUSE key_in_PRIORITY_UP key_in_PRIORITY_DOWN
  key_in_REVERSE_SORT key_in_NEXT_SORT key_in_PREVIOUS_SORT key_in_SELECT_SORT key_in_REMOVE_ASK
  key_in_TOGGLE_EXPAND_COLLAPSE key_in_TOGGLE_EXPAND_COLLAPSE_ALL key_in_AUTOCLEAR
  key_in_FOLLOW_ROW key_in_SEARCH key_in_FILTER key_in_TOGGLE_SELECT key_in_UN_SELECT_ALL
  key_in_QUIT key_in_CANCEL key_in_ENTER

text \<open>The branch of the main keyboard handler that each of these actions reaches.\<close>

lemma main_move_up:
  "key_in k MOVE_UP \<Longrightarrow>
   process_keyboard_event_main k st =
     (if focused st > 0 then
        let st1 = st\<lparr>focused := focused st - 1\<rparr>;
            st2 = (if focused st1 < row_offset st1 then st1\<lparr>row_offset := focused st1\<rparr>
                   else if focused st1 \<ge> row_offset st1 + (height st1 - 1)
                   then st1\<lparr>row_offset := focused st1 + 1 - (height st1 - 1)\<rparr>
                   else st1)
        in (None, st2\<lparr>follow := None, refresh := True\<rparr>)
      else (None, st))"
  by (simp add: key_in_simps process_keyboard_event_main_def)

lemma main_move_down:
  "key_in k MOVE_DOWN \<Longrightarrow>
   process_keyboard_event_main k st =
     (if focused st < int (length (rows st)) - 1 then
        let st1 = st\<lparr>focused := focused st + 1\<rparr>;
            st2 = (if focused st1 - row_offset st1 \<ge> height st1 - 1
                   then st1\<lparr>row_offset := focused st1 + 1 - (height st1 - 1)\<rparr>
                   else st1)
        in (None, st2\<lparr>follow := None, refresh := True\<rparr>)
      else (None, st))"
  by (simp add: key_in_simps process_keyboard_event_main_def)

lemma main_toggle_resume_pause:
  "key_in k TOGGLE_RESUME_PAUSE \<Longrightarrow>
   process_keyboard_event_main k st =
     (case py_index (data st) (focused st) of
        Inl e \<Rightarrow> (Some e, st)
      | Inr d \<Rightarrow>
          if is_active d \<or> is_waiting d then call (Pause d) st
          else if is_paused d then call (Resume d) st
          else (None, st))"
  by (simp add: key_in_simps process_keyboard_event_main_def)

lemma main_reverse_sort:
  "key_in k REVERSE_SORT \<Longrightarrow>
   process_keyboard_event_main k st = (None, st\<lparr>reverse := \<not> reverse st, refresh := True\<rparr>)"
  by (simp add: key_in_simps process_keyboard_event_main_def)

lemma main_remove_ask:
  "key_in k REMOVE_ASK \<Longrightarrow>
   process_keyboard_event_main k st =
     (case follow_focused st of
        (Inl e, st') \<Rightarrow> (Some e, st')
      | (Inr True, st') \<Rightarrow>
          (None,
           (let st1 = st'\<lparr>state := State_REMOVE_ASK, x_offset := width_remove_ask + 1\<rparr>;
                st2 = (case last_remove_choice st1 of
                         Some c \<Rightarrow> st1\<lparr>side_focused := c\<rparr>
                       | None \<Rightarrow> st1)
            in st2\<lparr>refresh := True\<rparr>))
      | (Inr False, st') \<Rightarrow> (None, st'))"
  unfolding key_in_REMOVE_ASK
  by (erule disjE) (simp_all add: key_in_simps process_keyboard_event_main_def)

lemma main_quit:
  "key_in k QUIT \<Longrightarrow> process_keyboard_event_main k st = (Some Exit, st)"
  unfolding key_in_QUIT
  by (erule disjE) (simp_all add: key_in_simps process_keyboard_event_main_def)

text \<open>Which exceptions the parts of a handler can raise.\<close>

lemma py_index_error: "py_index xs i = Inl e \<Longrightarrow> e = IndexError"
  by (simp add: py_index_def split: if_splits)

lemma follow_focused_error: "follow_focused st = (Inl e, s) \<Longrightarrow> e = IndexError \<and> s = st"
  by (auto simp: follow_focused_def dest: py_index_error split: if_splits sum.splits)

lemma main_exit_only_quit:
  "process_keyboard_event_main k st = (Some Exit, s) \<Longrightarrow> key_in k QUIT \<and> s = st"
  unfolding process_keyboard_event_main_def Let_def
  by (auto split: if_splits sum.splits prod.splits option.splits bool.splits
      dest: py_index_error follow_focused_error simp: call_def)

lemma remove_ask_no_exit:
  "fst (process_keyboard_event_remove_ask k st) \<noteq> Some Exit"
  unfolding process_keyboard_event_remove_ask_def
  by (auto split: if_splits sum.splits prod.splits option.splits
      dest: py_index_error simp: call_def)

lemma select_sort_no_exit:
  "fst (process_keyboard_event_select_sort k st) \<noteq> Some Exit"
  unfolding process_keyboard_event_select_sort_def by (simp split: if_splits)

lemma column_from_error: "column_from i bs px = Inl e \<Longrightarrow> e = ValueError"
  by (induction bs arbitrary: i) (auto split: if_splits)

lemma mouse_no_exit: "fst (process_mouse_event px py btns st) \<noteq> Some Exit"
  by (auto simp: process_mouse_event_def process_mouse_event_main_def get_column_at_x_def
      split: State.splits sum.splits dest: column_from_error)

lemma process_event_exit:
  "process_event ev st = (Some Exit, s) \<Longrightarrow>
   (\<exists>k. ev = KeyboardEvent k \<and> key_in k QUIT) \<and> state st = State_MAIN \<and> s = st"
proof (cases ev)
  case (KeyboardEvent k)
  assume a: "process_event ev st = (Some Exit, s)"
  show ?thesis
  proof (cases "state st")
    case State_MAIN
    then show ?thesis
      using a KeyboardEvent main_exit_only_quit [of k st s]
      by (simp add: process_event_def process_keyboard_event_def)
  next
    case State_HELP
    then show ?thesis
      using a KeyboardEvent
      by (simp add: process_event_def process_keyboard_event_def process_keyboard_event_help_def)
  next
    case State_SETUP
    then show ?thesis
      using a KeyboardEvent
      by (simp add: process_event_def process_keyboard_event_def process_keyboard_event_setup_def)
  next
    case State_REMOVE_ASK
    then show ?thesis
      using a KeyboardEvent remove_ask_no_exit [of k st]
      by (simp add: process_event_def process_keyboard_event_def)
  next
    case State_SELECT_SORT
    then show ?thesis
      using a KeyboardEvent select_sort_no_exit [of k st]
      by (simp add: process_event_def process_keyboard_event_def)
  qed
next
  case (MouseEvent px py btns)
  assume a: "process_event ev st = (Some Exit, s)"
  then show ?thesis
    using MouseEvent mouse_no_exit [of px py btns st] by (simp add: process_event_def)
qed

section \<open>Single events\<close>

text \<open>
  C5. In Main mode, when \<^verbatim>\<open>data[focused]\<close> is the download \<open>d\<close>, the
  ToggleResumePause key sends \<^verbatim>\<open>pause\<close> for \<open>d\<close> when its status is active or
  waiting, \<^verbatim>\<open>resume\<close> when it is paused, and nothing for any other status. The
  state it leaves differs from the one it found in the record of sent commands only.
\<close>

theorem toggle_resume_pause:
  "state st = State_MAIN \<Longrightarrow> key_in k TOGGLE_RESUME_PAUSE \<Longrightarrow>
   py_index (data st) (focused st) = Inr d \<Longrightarrow>
   snd (process_event (KeyboardEvent k) st) =
     (if status d = ''active'' \<or> status d = ''waiting''
      then st\<lparr>api_calls := api_calls st @ [Pause d]\<rparr>
      else if status d = ''paused'' then st\<lparr>api_calls := api_calls st @ [Resume d]\<rparr>
      else st)"
  by (simp add: process_event_def process_keyboard_event_def main_toggle_resume_pause
      is_active_def is_waiting_def is_paused_def call_def)

theorem toggle_resume_pause_witness:
  "state (example_interface\<lparr>focused := 1\<rparr>) = State_MAIN
   \<and> key_in 32 TOGGLE_RESUME_PAUSE
   \<and> py_index (data (example_interface\<lparr>focused := 1\<rparr>)) (focused (example_interface\<lparr>focused := 1\<rparr>))
       = Inr (example_download ''b2'' ''paused'' 20 ''two'')
   \<and> snd (process_event (KeyboardEvent 32) (example_interface\<lparr>focused := 1\<rparr>))
       = example_interface\<lparr>focused := 1,
           api_calls := [Resume (example_download ''b2'' ''paused'' 20 ''two'')]\<rparr>"
  using toggle_resume_pause [of "example_interface\<lparr>focused := 1\<rparr>" 32
      "example_download ''b2'' ''paused'' 20 ''two''"]
  by (simp add: example_interface_def interface_init_def example_downloads_def py_index_def
      key_in_TOGGLE_RESUME_PAUSE example_download_def)

text \<open>
  C7. In SelectSort mode the Enter key sets the sort column index to the side-panel
  focus index, whatever it is, sets the horizontal offset to 0 and returns to Main
  mode (and asks for a refresh).
\<close>

theorem select_sort_enter:
  "state st = State_SELECT_SORT \<Longrightarrow> key_in k ENTER \<Longrightarrow>
   process_event (KeyboardEvent k) st =
     (None, st\<lparr>sort_index := side_focused st, state := State_MAIN, x_offset := 0,
               refresh := True\<rparr>)"
  by (simp add: process_event_def process_keyboard_event_def
      process_keyboard_event_select_sort_def key_in_ENTER key_in_CANCEL)

theorem select_sort_enter_witness:
  "state (example_interface\<lparr>state := State_SELECT_SORT, side_focused := 5, x_offset := 13\<rparr>)
     = State_SELECT_SORT
   \<and> key_in 10 ENTER
   \<and> process_event (KeyboardEvent 10)
        (example_interface\<lparr>state := State_SELECT_SORT, side_focused := 5, x_offset := 13\<rparr>)
       = (None, example_interface\<lparr>state := State_MAIN, side_focused := 5, x_offset := 0,
                  sort_index := 5, refresh := True\<rparr>)"
  using select_sort_enter
    [of "example_interface\<lparr>state := State_SELECT_SORT, side_focused := 5, x_offset := 13\<rparr>" 10]
  by (simp add: example_interface_def interface_init_def key_in_ENTER)

text \<open>
  C10. In Main mode, a left click on a row \<open>y \<ge> 1\<close> while there are no rows and
  \<^verbatim>\<open>row_offset\<close> is 0 sets \<^verbatim>\<open>focused\<close> to
  \<^verbatim>\<open>min(y - 1 + row_offset, len(rows) - 1)\<close>, which is \<open>-1\<close>: the click does not
  clamp the focus index at 0.
\<close>

theorem click_on_empty_rows:
  "state st = State_MAIN \<Longrightarrow> btns AND LEFT_CLICK \<noteq> 0 \<Longrightarrow> 1 \<le> py \<Longrightarrow> rows st = [] \<Longrightarrow>
   row_offset st = 0 \<Longrightarrow>
   process_event (MouseEvent px py btns) st = (None, st\<lparr>focused := - 1, refresh := True\<rparr>)
   \<and> min (py - 1 + row_offset st) (int (length (rows st)) - 1) = - 1"
  by (simp add: process_event_def process_mouse_event_def process_mouse_event_main_def)

theorem click_on_empty_rows_witness:
  "state (interface_init never_raises) = State_MAIN \<and> (1::int) AND LEFT_CLICK \<noteq> 0
   \<and> (1::int) \<le> 5 \<and> rows (interface_init never_raises) = []
   \<and> row_offset (interface_init never_raises) = 0
   \<and> focused (snd (process_event (MouseEvent 3 5 1) (interface_init never_raises))) = - 1"
  using click_on_empty_rows [of "interface_init never_raises" 1 5 3]
  by (simp add: interface_init_def LEFT_CLICK_def)

section \<open>Moving the focus\<close>

lemma up_down_step:
  assumes "state st = State_MAIN" and "focus_visible st" and "is_up_down ev"
  shows "\<exists>st'. process_event ev st = (None, st') \<and> state st' = State_MAIN \<and> focus_visible st'"
proof (cases ev)
  case (KeyboardEvent k)
  show ?thesis
  proof (cases "key_in k MOVE_UP")
    case True
    then show ?thesis
      using assms(1,2) KeyboardEvent
      by (auto simp: process_event_def process_keyboard_event_def main_move_up focus_visible_def
          Let_def)
  next
    case False
    then have "key_in k MOVE_DOWN"
      using assms(3) KeyboardEvent by (simp add: is_up_down_def)
    then show ?thesis
      using assms(1,2) KeyboardEvent
      by (auto simp: process_event_def process_keyboard_event_def main_move_down focus_visible_def
          Let_def)
  qed
next
  case (MouseEvent px py btns)
  then show ?thesis using assms(3) by (simp add: is_up_down_def)
qed

lemma up_down_drain:
  "state st = State_MAIN \<Longrightarrow> focus_visible st \<Longrightarrow> \<forall>ev \<in> set evs. is_up_down ev \<Longrightarrow>
   \<exists>st'. drain evs st = Drained st' \<and> state st' = State_MAIN \<and> focus_visible st'"
proof (induction evs arbitrary: st)
  case Nil
  then show ?case by simp
next
  case (Cons ev evs)
  from Cons.prems obtain s where s: "process_event ev st = (None, s)" "state s = State_MAIN"
      "focus_visible s"
    using up_down_step [of st ev] by auto
  from Cons.IH [OF s(2) s(3)] Cons.prems(3) show ?case
    by (simp add: s(1))
qed

text \<open>
  C2. From a Main-mode state whose rows are non-empty, whose \<^verbatim>\<open>focused\<close> lies in
  \<open>[0, len(rows))\<close> and inside the window of \<^verbatim>\<open>height - 1\<close> rows starting at
  \<^verbatim>\<open>row_offset\<close>, any queue of Up and Down key events is drained without leaving
  Main mode, and after each event of the queue \<^verbatim>\<open>focused\<close> is again in
  \<open>[0, len(rows))\<close> with \<open>row_offset \<le> focused < row_offset + height - 1\<close>.
\<close>

theorem up_down_keeps_focus_visible:
  "state st = State_MAIN \<Longrightarrow> focus_visible st \<Longrightarrow> \<forall>ev \<in> set evs. is_up_down ev \<Longrightarrow>
   \<exists>st'. drain (take n evs) st = Drained st' \<and> state st' = State_MAIN \<and> focus_visible st'
     \<and> 0 \<le> focused st' \<and> focused st' < int (length (rows st'))
     \<and> row_offset st' \<le> focused st' \<and> focused st' < row_offset st' + (height st' - 1)"
proof -
  assume a: "state st = State_MAIN" "focus_visible st" "\<forall>ev \<in> set evs. is_up_down ev"
  have "\<forall>ev \<in> set (take n evs). is_up_down ev"
    using a(3) by (meson in_set_takeD)
  from up_down_drain [OF a(1) a(2) this] show ?thesis
    by (auto simp: focus_visible_def)
qed

theorem up_down_keeps_focus_visible_witness:
  "state (example_interface\<lparr>height := 3\<rparr>) = State_MAIN
   \<and> focus_visible (example_interface\<lparr>height := 3\<rparr>)
   \<and> list_all is_up_down [KeyboardEvent (- 206), KeyboardEvent (- 206), KeyboardEvent (- 206),
        KeyboardEvent (- 204), KeyboardEvent (- 204), KeyboardEvent (- 204)]
   \<and> (\<exists>st'. drain (take 3 [KeyboardEvent (- 206), KeyboardEvent (- 206), KeyboardEvent (- 206),
        KeyboardEvent (- 204), KeyboardEvent (- 204), KeyboardEvent (- 204)])
          (example_interface\<lparr>height := 3\<rparr>) = Drained st'
        \<and> focused st' = 2 \<and> row_offset st' = 1 \<and> focus_visible st')"
  using up_down_keeps_focus_visible [of "example_interface\<lparr>height := 3\<rparr>"
      "[KeyboardEvent (- 206), KeyboardEvent (- 206), KeyboardEvent (- 206),
        KeyboardEvent (- 204), KeyboardEvent (- 204), KeyboardEvent (- 204)]" 3]
  by (simp add: example_interface_def interface_init_def example_downloads_def focus_visible_def
      is_up_down_def key_in_MOVE_UP key_in_MOVE_DOWN process_event_def process_keyboard_event_def
      main_move_up main_move_down Let_def)

section \<open>Draining the event queue\<close>

lemma drain_append:
  "drain (pre @ post) st = (case drain pre st of Drained s \<Rightarrow> drain post s | Exited s \<Rightarrow> Exited s)"
  by (induction pre arbitrary: st) (auto split: prod.splits option.splits)

lemma drain_step_logged:
  "process_event ev st = (r, s) \<Longrightarrow> r \<noteq> Some Exit \<Longrightarrow>
   drain (ev # evs) st = drain evs (process_and_log st ev)"
  by (cases r) (simp_all add: process_and_log_def)

lemma drain_Drained:
  "drain evs st = Drained s \<Longrightarrow> s = foldl process_and_log st evs"
proof (induction evs arbitrary: st)
  case Nil
  then show ?case by simp
next
  case (Cons ev evs)
  obtain r s' where p: "process_event ev st = (r, s')" by (cases "process_event ev st")
  have ne: "r \<noteq> Some Exit"
    using Cons.prems p by auto
  have "drain evs (process_and_log st ev) = Drained s"
    using drain_step_logged [OF p ne, of evs] Cons.prems by simp
  then show ?case using Cons.IH by simp
qed

lemma drain_Exited:
  "drain evs st = Exited s \<Longrightarrow>
   \<exists>pre k post. evs = pre @ KeyboardEvent k # post \<and> key_in k QUIT \<and> drain pre st = Drained s
     \<and> state s = State_MAIN"
proof (induction evs arbitrary: st)
  case Nil
  then show ?case by simp
next
  case (Cons ev evs)
  obtain r s' where p: "process_event ev st = (r, s')" by (cases "process_event ev st")
  show ?case
  proof (cases "r = Some Exit")
    case True
    then have "(\<exists>k. ev = KeyboardEvent k \<and> key_in k QUIT) \<and> state st = State_MAIN \<and> s' = st"
      using process_event_exit [of ev st s'] p by simp
    moreover have "s = s'" using Cons.prems p True by simp
    ultimately have "\<exists>k. ev # evs = [] @ KeyboardEvent k # evs \<and> key_in k QUIT
        \<and> drain [] st = Drained s \<and> state s = State_MAIN"
      by auto
    then show ?thesis by blast
  next
    case False
    have d: "drain (ev # evs) st = drain evs (process_and_log st ev)"
      by (rule drain_step_logged [OF p False])
    then have "drain evs (process_and_log st ev) = Exited s"
      using Cons.prems by simp
    from Cons.IH [OF this] obtain pre k post where
      e: "evs = pre @ KeyboardEvent k # post" "key_in k QUIT"
         "drain pre (process_and_log st ev) = Drained s" "state s = State_MAIN"
      by blast
    have "drain (ev # pre) st = Drained s"
      using drain_step_logged [OF p False, of pre] e(3) by simp
    then have "ev # evs = (ev # pre) @ KeyboardEvent k # post \<and> key_in k QUIT
        \<and> drain (ev # pre) st = Drained s \<and> state s = State_MAIN"
      using e by simp
    then show ?thesis by blast
  qed
qed

lemma column_from_miss:
  "\<forall>b \<in> set bs. \<not> (fst b \<le> px \<and> px \<le> snd b) \<Longrightarrow> column_from i bs px = Inl ValueError"
  by (induction bs arbitrary: i) auto

lemma header_click_outside:
  "state st = State_MAIN \<Longrightarrow> btns AND LEFT_CLICK \<noteq> 0 \<Longrightarrow>
   \<forall>b \<in> set (bounds st). \<not> (fst b \<le> px \<and> px \<le> snd b) \<Longrightarrow>
   process_event (MouseEvent px 0 btns) st = (Some ValueError, st)"
  by (simp add: process_event_def process_mouse_event_def process_mouse_event_main_def
      get_column_at_x_def column_from_miss)

text \<open>
  C3. Draining a queue of pending events either ends with every event of the queue
  processed in order, each exception raised by a handler appended to the log, or it
  ends at a Quit key met in Main mode, with every event before it processed. An
  exception other than \<^verbatim>\<open>Exit\<close> raised by one event is logged and the rest of the queue
  is drained from the state that event left. A left click on the header row at an
  \<open>x\<close> outside all column bounds is such an event: the column lookup raises
  \<^verbatim>\<open>ValueError\<close>, nothing is written, and the queue goes on.
\<close>

theorem drain_survives_errors:
  "(case drain evs st of
      Drained s \<Rightarrow> s = foldl process_and_log st evs
    | Exited s \<Rightarrow>
        (\<exists>pre k post. evs = pre @ KeyboardEvent k # post \<and> key_in k QUIT
           \<and> drain pre st = Drained s \<and> state s = State_MAIN))
   \<and> (\<forall>pre ev post s1 e s2.
         drain pre st = Drained s1 \<and> process_event ev s1 = (Some e, s2) \<and> e \<noteq> Exit \<longrightarrow>
         drain (pre @ ev # post) st = drain post (s2\<lparr>logged := logged s2 @ [e]\<rparr>))
   \<and> (\<forall>px btns post.
         state st = State_MAIN \<and> btns AND LEFT_CLICK \<noteq> 0
         \<and> (\<forall>b \<in> set (bounds st). \<not> (fst b \<le> px \<and> px \<le> snd b)) \<longrightarrow>
         process_event (MouseEvent px 0 btns) st = (Some ValueError, st)
         \<and> drain (MouseEvent px 0 btns # post) st
             = drain post (st\<lparr>logged := logged st @ [ValueError]\<rparr>))"
proof (intro conjI allI impI)
  show "case drain evs st of
      Drained s \<Rightarrow> s = foldl process_and_log st evs
    | Exited s \<Rightarrow>
        (\<exists>pre k post. evs = pre @ KeyboardEvent k # post \<and> key_in k QUIT
           \<and> drain pre st = Drained s \<and> state s = State_MAIN)"
    using drain_Drained [of evs st] drain_Exited [of evs st]
    by (cases "drain evs st") simp_all
next
  fix pre ev post s1 e s2
  assume "drain pre st = Drained s1 \<and> process_event ev s1 = (Some e, s2) \<and> e \<noteq> Exit"
  then show "drain (pre @ ev # post) st = drain post (s2\<lparr>logged := logged s2 @ [e]\<rparr>)"
    by (simp add: drain_append)
next
  fix px btns post
  assume a: "state st = State_MAIN \<and> btns AND LEFT_CLICK \<noteq> 0
         \<and> (\<forall>b \<in> set (bounds st). \<not> (fst b \<le> px \<and> px \<le> snd b))"
  then show "process_event (MouseEvent px 0 btns) st = (Some ValueError, st)"
    by (simp add: header_click_outside)
  then show "drain (MouseEvent px 0 btns # post) st
             = drain post (st\<lparr>logged := logged st @ [ValueError]\<rparr>)"
    by simp
qed

theorem drain_survives_errors_witness:
  "state example_interface = State_MAIN \<and> (1::int) AND LEFT_CLICK \<noteq> 0
   \<and> list_all (\<lambda>b. \<not> (fst b \<le> 500 \<and> 500 \<le> snd b)) (bounds example_interface)
   \<and> process_event (MouseEvent 500 0 1) example_interface = (Some ValueError, example_interface)
   \<and> drain [MouseEvent 500 0 1, KeyboardEvent (- 206)] example_interface
       = Drained (example_interface\<lparr>focused := 1, refresh := True, logged := [ValueError]\<rparr>)
   \<and> drain [MouseEvent 500 0 1, KeyboardEvent 113, KeyboardEvent (- 206)] example_interface
       = Exited (example_interface\<lparr>logged := [ValueError]\<rparr>)"
  using drain_survives_errors [of "[MouseEvent 500 0 1, KeyboardEvent (- 206)]" example_interface]
  by (simp add: example_interface_def interface_init_def example_downloads_def LEFT_CLICK_def
      process_event_def process_keyboard_event_def process_mouse_event_def
      process_mouse_event_main_def get_column_at_x_def
      key_in_MOVE_DOWN key_in_QUIT main_move_down main_quit Let_def)

section \<open>Column bounds\<close>

lemma set_screen_bounds:
  "set_screen (h, w) st =
     (None, st\<lparr>height := h, width := w,
               bounds := [(0, 16), (17, 26), (27, 35), (36, 47), (48, 61), (62, 75), (76, 84),
                          (85, w)]\<rparr>)"
  by (simp add: set_screen_def columns_order_def columns_def py_int_def lstrip_def is_digit_def
      py_index_def)

lemma upt8: "[0..<8] = [0, 1, 2, 3, 4, 5, 6, 7]"
  by (simp add: upt_rec)

lemma hit_fixed:
  "0 \<le> px \<Longrightarrow> px \<le> max 84 w \<Longrightarrow>
   \<exists>i. column_from 0 [(0, 16), (17, 26), (27, 35), (36, 47), (48, 61), (62, 75), (76, 84), (85, w)] px
         = Inr (int i)
     \<and> closed_hits [(0, 16), (17, 26), (27, 35), (36, 47), (48, 61), (62, 75), (76, 84), (85, w)] px
         = [i]"
  by (auto simp: closed_hits_def upt8)

text \<open>
  C8, as the code has it. After \<^verbatim>\<open>set_screen\<close>, for any screen dimensions, the bounds
  are a list of pairs with one pair per column, starting at 0; each pair after the
  first starts one past the end of the pair before it, the starts increase strictly,
  and every pair but the last has its start at or below its end. The last pair is
  \<open>(85, width)\<close>. The hit test includes both ends of a pair, and every position from
  0 to the larger of 84 and the width lies in exactly one pair, the one the lookup
  returns.
\<close>

theorem set_screen_bounds_closed:
  "\<exists>st'. set_screen (h, w) st = (None, st')
     \<and> length (bounds st') = length columns_order
     \<and> (\<forall>i. Suc i < length (bounds st') \<longrightarrow>
           fst (bounds st' ! Suc i) = snd (bounds st' ! i) + 1
           \<and> fst (bounds st' ! i) < fst (bounds st' ! Suc i)
           \<and> fst (bounds st' ! i) \<le> snd (bounds st' ! i))
     \<and> fst (bounds st' ! 0) = 0 \<and> last (bounds st') = (85, w)
     \<and> (\<forall>px. 0 \<le> px \<and> px \<le> max 84 w \<longrightarrow>
           (\<exists>i. get_column_at_x st' px = Inr (int i) \<and> closed_hits (bounds st') px = [i]))"
proof -
  let ?bs = "[(0, 16), (17, 26), (27, 35), (36, 47), (48, 61), (62, 75), (76, 84), (85, w)]"
  let ?st = "st\<lparr>height := h, width := w, bounds := ?bs\<rparr>"
  have 1: "set_screen (h, w) st = (None, ?st)" by (rule set_screen_bounds)
  have 2: "length (bounds ?st) = length columns_order" by (simp add: columns_order_def)
  have 3: "\<forall>i. Suc i < length (bounds ?st) \<longrightarrow>
           fst (bounds ?st ! Suc i) = snd (bounds ?st ! i) + 1
           \<and> fst (bounds ?st ! i) < fst (bounds ?st ! Suc i)
           \<and> fst (bounds ?st ! i) \<le> snd (bounds ?st ! i)"
  proof (intro allI impI)
    fix i assume "Suc i < length (bounds ?st)"
    then have "i \<in> {0, 1, 2, 3, 4, 5, 6}" by auto
    then show "fst (bounds ?st ! Suc i) = snd (bounds ?st ! i) + 1
           \<and> fst (bounds ?st ! i) < fst (bounds ?st ! Suc i)
           \<and> fst (bounds ?st ! i) \<le> snd (bounds ?st ! i)"
      by (auto simp: numeral_eq_Suc)
  qed
  have 4: "fst (bounds ?st ! 0) = 0 \<and> last (bounds ?st) = (85, w)" by simp
  have 5: "\<forall>px. 0 \<le> px \<and> px \<le> max 84 w \<longrightarrow>
           (\<exists>i. get_column_at_x ?st px = Inr (int i) \<and> closed_hits (bounds ?st) px = [i])"
    using hit_fixed [of _ w] by (simp add: get_column_at_x_def)
  show ?thesis using 1 2 3 4 5 by blast
qed

theorem set_screen_bounds_closed_witness:
  "(0::int) \<le> 16 \<and> (16::int) \<le> max 84 100
   \<and> (\<exists>i. get_column_at_x (snd (set_screen (24, 100) (interface_init never_raises))) 16
            = Inr (int i)
        \<and> closed_hits (bounds (snd (set_screen (24, 100) (interface_init never_raises)))) 16
            = [i])
   \<and> get_column_at_x (snd (set_screen (24, 100) (interface_init never_raises))) 16 = Inr 0
   \<and> length (bounds (snd (set_screen (24, 100) (interface_init never_raises)))) = 8"
proof -
  let ?I = "interface_init never_raises"
  from set_screen_bounds_closed [of 24 100 ?I] obtain st' where
    a: "set_screen (24, 100) ?I = (None, st')" and
    b: "\<forall>px. 0 \<le> px \<and> px \<le> max 84 100 \<longrightarrow>
          (\<exists>i. get_column_at_x st' px = Inr (int i) \<and> closed_hits (bounds st') px = [i])"
    by blast
  have c: "snd (set_screen (24, 100) ?I) = st'" using a by simp
  have "(0::int) \<le> 16 \<and> (16::int) \<le> max 84 100" by simp
  with b have "\<exists>i. get_column_at_x st' 16 = Inr (int i) \<and> closed_hits (bounds st') 16 = [i]"
    by blast
  moreover have "get_column_at_x (snd (set_screen (24, 100) ?I)) 16 = Inr 0"
    by (simp add: set_screen_bounds get_column_at_x_def)
  moreover have "length (bounds (snd (set_screen (24, 100) ?I))) = 8"
    by (simp add: set_screen_bounds)
  ultimately show ?thesis using c by simp
qed

text \<open>
  C8, as the claim words it, fails twice. Read as half-open pairs \<open>[start, end)\<close> the
  bounds leave gaps: on a screen 100 columns wide, position 16 lies between the
  first start and the last end and in none of the pairs (the lookup, which includes
  the ends, gives it to column 0). And the list is not increasing on a screen 80
  columns wide: the last pair ends, at 80, before it starts.
\<close>

theorem set_screen_bounds_counterexample:
  "half_open_hits (bounds (snd (set_screen (24, 100) (interface_init never_raises)))) 16 = []
   \<and> fst (hd (bounds (snd (set_screen (24, 100) (interface_init never_raises))))) \<le> 16
   \<and> 16 \<le> snd (last (bounds (snd (set_screen (24, 100) (interface_init never_raises)))))
   \<and> get_column_at_x (snd (set_screen (24, 100) (interface_init never_raises))) 16 = Inr 0
   \<and> snd (last (bounds (snd (set_screen (24, 80) (interface_init never_raises)))))
       < fst (last (bounds (snd (set_screen (24, 80) (interface_init never_raises)))))"
  by (simp add: set_screen_bounds get_column_at_x_def half_open_hits_def upt8)


section \<open>Reversing the sort\<close>

lemma sort_key_same_ties:
  assumes "mset ys = mset xs"
    and "\<And>k. filter (\<lambda>x. f k = f x) ys = filter (\<lambda>x. f k = f x) xs"
  shows "sort_key f ys = sort_key f xs"
proof (rule properties_for_sort_key)
  show "mset (sort_key f xs) = mset ys" using assms(1) by simp
next
  fix k
  have "filter (\<lambda>x. f k = f x) (sort_key f xs) = filter (\<lambda>x. f x = f k) (sort_key f xs)"
    by (rule filter_cong) auto
  also have "\<dots> = filter (\<lambda>x. f x = f k) xs" by (rule sort_key_stable)
  also have "\<dots> = filter (\<lambda>x. f k = f x) xs" by (rule filter_cong) auto
  finally show "filter (\<lambda>x. f k = f x) (sort_key f xs) = filter (\<lambda>x. f k = f x) ys"
    using assms(2) by simp
next
  show "sorted (map f (sort_key f xs))" by simp
qed

lemma sort_key_ties: "filter (\<lambda>x. f k = f x) (sort_key f xs) = filter (\<lambda>x. f k = f x) xs"
proof -
  have "filter (\<lambda>x. f k = f x) (sort_key f xs) = filter (\<lambda>x. f x = f k) (sort_key f xs)"
    by (rule filter_cong) auto
  also have "\<dots> = filter (\<lambda>x. f x = f k) xs" by (rule sort_key_stable)
  also have "\<dots> = filter (\<lambda>x. f k = f x) xs" by (rule filter_cong) auto
  finally show ?thesis .
qed

lemma py_sorted_ties:
  "filter (\<lambda>x. f k = f x) (py_sorted f r xs) = filter (\<lambda>x. f k = f x) xs"
proof (cases r)
  case True
  have "filter (\<lambda>x. f k = f x) (rev (sort_key f (rev xs)))
      = rev (filter (\<lambda>x. f k = f x) (sort_key f (rev xs)))"
    by (simp add: rev_filter)
  also have "\<dots> = rev (filter (\<lambda>x. f k = f x) (rev xs))" by (simp only: sort_key_ties)
  also have "\<dots> = filter (\<lambda>x. f k = f x) xs" by (simp add: rev_filter)
  finally show ?thesis using True by (simp add: py_sorted_def)
next
  case False
  then show ?thesis by (simp add: py_sorted_def sort_key_ties)
qed

lemma mset_py_sorted: "mset (py_sorted f r xs) = mset xs"
  by (simp add: py_sorted_def)

lemma py_sorted_absorb: "py_sorted f r (py_sorted f r' xs) = py_sorted f r xs"
proof (cases r)
  case False
  have "sort_key f (py_sorted f r' xs) = sort_key f xs"
    by (rule sort_key_same_ties) (simp_all add: mset_py_sorted py_sorted_ties)
  then show ?thesis using False by (simp add: py_sorted_def)
next
  case True
  have "sort_key f (rev (py_sorted f r' xs)) = sort_key f (rev xs)"
  proof (rule sort_key_same_ties)
    show "mset (rev (py_sorted f r' xs)) = mset (rev xs)" by (simp add: mset_py_sorted)
  next
    fix k
    have "filter (\<lambda>x. f k = f x) (rev (py_sorted f r' xs))
        = rev (filter (\<lambda>x. f k = f x) (py_sorted f r' xs))"
      by (simp add: rev_filter)
    also have "\<dots> = rev (filter (\<lambda>x. f k = f x) xs)" by (simp only: py_sorted_ties)
    also have "\<dots> = filter (\<lambda>x. f k = f x) (rev xs)" by (simp add: rev_filter)
    finally show "filter (\<lambda>x. f k = f x) (rev (py_sorted f r' xs))
        = filter (\<lambda>x. f k = f x) (rev xs)" .
  qed
  then show ?thesis using True by (simp add: py_sorted_def)
qed

lemma sorted_by_absorb: "sorted_by c r (sorted_by c r' ds) = sorted_by c r ds"
  by (simp add: sorted_by_def py_sorted_absorb)

lemma set_sorted_by: "set (sorted_by c r ds) = set ds"
  by (simp add: sorted_by_def py_sorted_def)

lemma update_rows_data: "data (snd (update_rows st)) = data st"
  by (simp add: update_rows_def Let_def split: option.splits sum.splits)

lemma update_rows_rows:
  "rows (snd (update_rows st)) = map (\<lambda>item. map (\<lambda>c. get_text c item) columns_order) (data st)"
  by (simp add: update_rows_def Let_def split: option.splits sum.splits)

lemma update_rows_same:
  "sort_index (snd (update_rows st)) = sort_index st \<and> reverse (snd (update_rows st)) = reverse st
   \<and> state (snd (update_rows st)) = state st"
  by (simp add: update_rows_def Let_def split: option.splits sum.splits)

lemma update_rows_no_follow: "follow st = None \<Longrightarrow> fst (update_rows st) = None"
  by (simp add: update_rows_def Let_def)

lemma event_then_resort_reverse:
  assumes "state st = State_MAIN" and "key_in k REVERSE_SORT"
    and "py_index columns_order (sort_index st) = Inr c"
  shows "data (snd (event_then_resort k st)) = sorted_by c (\<not> reverse st) (data st)"
    and "rows (snd (event_then_resort k st))
          = map (\<lambda>item. map (\<lambda>c. get_text c item) columns_order)
              (sorted_by c (\<not> reverse st) (data st))"
    and "sort_index (snd (event_then_resort k st)) = sort_index st"
    and "reverse (snd (event_then_resort k st)) = (\<not> reverse st)"
    and "state (snd (event_then_resort k st)) = State_MAIN"
    and "follow st = None \<Longrightarrow> fst (event_then_resort k st) = None"
  using assms
  by (simp_all add: event_then_resort_def process_event_def process_keyboard_event_def
      main_reverse_sort resort_def sort_data_def update_rows_data update_rows_rows
      update_rows_same update_rows_no_follow)

text \<open>
  C4. Take any task list, any sort column and any direction, the data sorted
  accordingly and the rows built from them. The ReverseSort key followed by the
  re-sort puts the data in the order of the opposite direction; the key and the
  re-sort once more give back exactly the original data and rows, also when several
  tasks have equal sort keys. With no followed download the re-sort raises nothing.
\<close>

theorem reverse_twice_restores_order:
  assumes "state st = State_MAIN" and "key_in k REVERSE_SORT"
    and "py_index columns_order (sort_index st) = Inr c"
    and "data st = sorted_by c (reverse st) ds"
    and "rows st = map (\<lambda>item. map (\<lambda>c. get_text c item) columns_order) (data st)"
  shows "data (snd (event_then_resort k (snd (event_then_resort k st)))) = data st
    \<and> rows (snd (event_then_resort k (snd (event_then_resort k st)))) = rows st
    \<and> reverse (snd (event_then_resort k (snd (event_then_resort k st)))) = reverse st
    \<and> data (snd (event_then_resort k st)) = sorted_by c (\<not> reverse st) ds
    \<and> (follow st = None \<longrightarrow> fst (event_then_resort k st) = None)"
proof -
  let ?s1 = "snd (event_then_resort k st)"
  have a: "data ?s1 = sorted_by c (\<not> reverse st) ds"
    using event_then_resort_reverse(1) [OF assms(1,2,3)] assms(4) by (simp add: sorted_by_absorb)
  have b: "sort_index ?s1 = sort_index st" "reverse ?s1 = (\<not> reverse st)" "state ?s1 = State_MAIN"
    using event_then_resort_reverse(3,4,5) [OF assms(1,2,3)] by simp_all
  have c: "py_index columns_order (sort_index ?s1) = Inr c" using b(1) assms(3) by simp
  have d: "data (snd (event_then_resort k ?s1)) = sorted_by c (reverse st) ds"
    using event_then_resort_reverse(1) [OF b(3) assms(2) c] a b(2) by (simp add: sorted_by_absorb)
  have e: "rows (snd (event_then_resort k ?s1))
      = map (\<lambda>item. map (\<lambda>c. get_text c item) columns_order) (sorted_by c (reverse st) ds)"
    using event_then_resort_reverse(2) [OF b(3) assms(2) c] a b(2) by (simp add: sorted_by_absorb)
  have f: "reverse (snd (event_then_resort k ?s1)) = reverse st"
    using event_then_resort_reverse(4) [OF b(3) assms(2) c] b(2) by simp
  show ?thesis
    using a d e f assms(4,5) event_then_resort_reverse(6) [OF assms(1,2,3)] by simp
qed

theorem reverse_twice_restores_order_witness:
  "state (example_interface\<lparr>sort_index := 3,
      data := [example_download ''b2'' ''paused'' 20 ''two'',
               example_download ''a1'' ''active'' 10 ''one'',
               example_download ''c3'' ''error'' 10 ''three''],
      rows := map (\<lambda>item. map (\<lambda>c. get_text c item) columns_order)
               [example_download ''b2'' ''paused'' 20 ''two'',
                example_download ''a1'' ''active'' 10 ''one'',
                example_download ''c3'' ''error'' 10 ''three'']\<rparr>) = State_MAIN
   \<and> key_in 73 REVERSE_SORT
   \<and> py_index columns_order 3 = Inr ''size''
   \<and> sorted_by ''size'' True example_downloads
       = [example_download ''b2'' ''paused'' 20 ''two'',
          example_download ''a1'' ''active'' 10 ''one'',
          example_download ''c3'' ''error'' 10 ''three'']
   \<and> sorted_by ''size'' False example_downloads
       = [example_download ''a1'' ''active'' 10 ''one'',
          example_download ''c3'' ''error'' 10 ''three'',
          example_download ''b2'' ''paused'' 20 ''two'']
   \<and> data (snd (event_then_resort 73 (snd (event_then_resort 73
        (example_interface\<lparr>sort_index := 3,
      data := [example_download ''b2'' ''paused'' 20 ''two'',
               example_download ''a1'' ''active'' 10 ''one'',
               example_download ''c3'' ''error'' 10 ''three''],
      rows := map (\<lambda>item. map (\<lambda>c. get_text c item) columns_order)
               [example_download ''b2'' ''paused'' 20 ''two'',
                example_download ''a1'' ''active'' 10 ''one'',
                example_download ''c3'' ''error'' 10 ''three'']\<rparr>)))))
       = [example_download ''b2'' ''paused'' 20 ''two'',
          example_download ''a1'' ''active'' 10 ''one'',
          example_download ''c3'' ''error'' 10 ''three'']"
proof -
  let ?ds = "[example_download ''b2'' ''paused'' 20 ''two'',
              example_download ''a1'' ''active'' 10 ''one'',
              example_download ''c3'' ''error'' 10 ''three'']"
  let ?st = "example_interface\<lparr>sort_index := 3, data := ?ds,
      rows := map (\<lambda>item. map (\<lambda>c. get_text c item) columns_order) ?ds\<rparr>"
  have h1: "state ?st = State_MAIN" by (simp add: example_interface_def interface_init_def)
  have h2: "key_in 73 REVERSE_SORT" by (simp add: key_in_REVERSE_SORT)
  have h3: "py_index columns_order (sort_index ?st) = Inr ''size''"
    by (simp add: py_index_def columns_order_def)
  have r: "reverse ?st = True" by (simp add: example_interface_def interface_init_def)
  have up: "sorted_by ''size'' True example_downloads = ?ds"
    by (simp add: sorted_by_def py_sorted_def example_downloads_def example_download_def)
  have down: "sorted_by ''size'' False example_downloads
       = [example_download ''a1'' ''active'' 10 ''one'',
          example_download ''c3'' ''error'' 10 ''three'',
          example_download ''b2'' ''paused'' 20 ''two'']"
    by (simp add: sorted_by_def py_sorted_def example_downloads_def example_download_def)
  have h4: "data ?st = sorted_by ''size'' (reverse ?st) example_downloads"
    using up r by simp
  have h5: "rows ?st = map (\<lambda>item. map (\<lambda>c. get_text c item) columns_order) (data ?st)"
    by simp
  from reverse_twice_restores_order [OF h1 h2 h3 h4 h5]
  have "data (snd (event_then_resort 73 (snd (event_then_resort 73 ?st)))) = data ?st"
    by blast
  then have "data (snd (event_then_resort 73 (snd (event_then_resort 73 ?st)))) = ?ds"
    by simp
  then show ?thesis using h1 h2 h3 up down by simp
qed


section \<open>A followed download that has gone\<close>

lemma index_from_absent:
  "\<forall>x \<in> set ds. \<not> download_eq x d \<Longrightarrow> index_from i ds d = Inl ValueError"
  by (induction ds arbitrary: i) auto

lemma update_rows_absent:
  "follow st = Some d \<Longrightarrow> \<forall>x \<in> set (data st). \<not> download_eq x d \<Longrightarrow>
   update_rows st
     = (Some ValueError,
        st\<lparr>rows := map (\<lambda>item. map (\<lambda>c. get_text c item) columns_order) (data st)\<rparr>)"
  by (simp add: update_rows_def Let_def list_index_def index_from_absent)

lemma refresh_data_absent:
  assumes "follow s1 = Some d" and "\<forall>x \<in> set ds. \<not> download_eq x d"
    and "py_index columns_order (sort_index s1) = Inr c"
  shows "refresh_data (Inr ds) s1
     = (Some ValueError,
        s1\<lparr>data := sorted_by c (reverse s1) ds,
           rows := map (\<lambda>item. map (\<lambda>c. get_text c item) columns_order)
                     (sorted_by c (reverse s1) ds)\<rparr>)"
proof -
  let ?s2 = "s1\<lparr>data := sorted_by c (reverse s1) ds\<rparr>"
  have u: "update_data (Inr ds) s1 = (None, ?s2)"
    using assms(3) by (simp add: update_data_def sort_data_def)
  have "follow ?s2 = Some d" using assms(1) by simp
  moreover have "\<forall>x \<in> set (data ?s2). \<not> download_eq x d"
    using assms(2) by (simp add: set_sorted_by)
  ultimately have "update_rows ?s2
     = (Some ValueError,
        ?s2\<lparr>rows := map (\<lambda>item. map (\<lambda>c. get_text c item) columns_order) (data ?s2)\<rparr>)"
    by (rule update_rows_absent)
  then show ?thesis using u by (simp add: refresh_data_def)
qed

text \<open>
  C9. Let an iteration of the inner loop drain its events and reach the refresh of
  frame 0 with a followed download that no fetched download equals (and a sort
  column that exists). Then \<^verbatim>\<open>update_rows\<close>, run on the fetched and sorted data,
  raises \<^verbatim>\<open>ValueError\<close> from \<^verbatim>\<open>data.index\<close>; the refresh is outside the handler
  that guards single events, so the iteration ends, the exception is logged by the
  outermost handler, and \<^verbatim>\<open>run\<close> returns \<^verbatim>\<open>False\<close> whatever input would follow.
\<close>

theorem followed_task_absent:
  assumes "drain evs (st\<lparr>refresh := False\<rparr>) = Drained s1"
    and "frame s1 = 0"
    and "follow s1 = Some d"
    and "\<forall>x \<in> set ds. \<not> download_eq x d"
    and "py_index columns_order (sort_index s1) = Inr c"
  shows "(\<exists>s2. update_data (Inr ds) s1 = (None, s2) \<and> fst (update_rows s2) = Some ValueError)
    \<and> (\<exists>s'. frame_step evs (Inr ds) st = Returned False s' \<and> logged s' = logged s1 @ [ValueError])
    \<and> (\<exists>s'. run_from (Frame evs (Inr ds) # ts) st = Returned False s'
           \<and> logged s' = logged s1 @ [ValueError])"
proof -
  let ?s2 = "s1\<lparr>data := sorted_by c (reverse s1) ds\<rparr>"
  have u: "update_data (Inr ds) s1 = (None, ?s2)"
    using assms(5) by (simp add: update_data_def sort_data_def)
  have "update_rows ?s2
     = (Some ValueError,
        ?s2\<lparr>rows := map (\<lambda>item. map (\<lambda>c. get_text c item) columns_order) (data ?s2)\<rparr>)"
    using assms(3,4) by (intro update_rows_absent) (simp_all add: set_sorted_by)
  then have 1: "\<exists>s2. update_data (Inr ds) s1 = (None, s2) \<and> fst (update_rows s2) = Some ValueError"
    using u by simp
  have r: "refresh_data (Inr ds) s1
     = (Some ValueError,
        s1\<lparr>data := sorted_by c (reverse s1) ds,
           rows := map (\<lambda>item. map (\<lambda>c. get_text c item) columns_order)
                     (sorted_by c (reverse s1) ds)\<rparr>)"
    by (rule refresh_data_absent [OF assms(3,4,5)])
  have 2: "\<exists>s'. frame_step evs (Inr ds) st = Returned False s'
      \<and> logged s' = logged s1 @ [ValueError]"
    using assms(1,2) r by (simp add: frame_step_def)
  then have 3: "\<exists>s'. run_from (Frame evs (Inr ds) # ts) st = Returned False s'
      \<and> logged s' = logged s1 @ [ValueError]"
    by auto
  show ?thesis using 1 2 3 by blast
qed

theorem followed_task_absent_witness:
  "drain [] (example_interface\<lparr>frame := 0,
       follow := Some (example_download ''d4'' ''active'' 5 ''gone'')\<rparr>\<lparr>refresh := False\<rparr>)
     = Drained (example_interface\<lparr>frame := 0,
         follow := Some (example_download ''d4'' ''active'' 5 ''gone'')\<rparr>)
   \<and> list_all (\<lambda>x. \<not> download_eq x (example_download ''d4'' ''active'' 5 ''gone''))
        example_downloads
   \<and> py_index columns_order 2 = Inr ''progress''
   \<and> (\<exists>s'. run_from [Frame [] (Inr example_downloads), Frame [] (Inr example_downloads)]
          (example_interface\<lparr>frame := 0,
             follow := Some (example_download ''d4'' ''active'' 5 ''gone'')\<rparr>)
        = Returned False s' \<and> logged s' = [ValueError])"
proof -
  let ?d = "example_download ''d4'' ''active'' 5 ''gone''"
  let ?st = "example_interface\<lparr>frame := 0, follow := Some ?d\<rparr>"
  have e: "?st\<lparr>refresh := False\<rparr> = ?st"
    by (simp add: example_interface_def interface_init_def)
  have h1: "drain [] (?st\<lparr>refresh := False\<rparr>) = Drained ?st" using e by simp
  have h2: "frame ?st = 0" by simp
  have h3: "follow ?st = Some ?d" by simp
  have h4: "\<forall>x \<in> set example_downloads. \<not> download_eq x ?d"
    by (simp add: example_downloads_def example_download_def download_eq_def)
  have h5: "py_index columns_order (sort_index ?st) = Inr ''progress''"
    by (simp add: example_interface_def interface_init_def py_index_def columns_order_def)
  have l: "logged ?st = []" by (simp add: example_interface_def interface_init_def)
  from followed_task_absent [OF h1 h2 h3 h4 h5, of "[Frame [] (Inr example_downloads)]"]
  have "\<exists>s'. run_from [Frame [] (Inr example_downloads), Frame [] (Inr example_downloads)] ?st
        = Returned False s' \<and> logged s' = logged ?st @ [ValueError]"
    by blast
  then have "\<exists>s'. run_from [Frame [] (Inr example_downloads), Frame [] (Inr example_downloads)] ?st
        = Returned False s' \<and> logged s' = [ValueError]"
    using l by simp
  moreover have "py_index columns_order 2 = Inr ''progress''"
    by (simp add: py_index_def columns_order_def)
  ultimately show ?thesis using h1 h4 by (simp add: list_all_iff)
qed

section \<open>Asking to remove with a negative focus\<close>

text \<open>
  For a focus index that is not negative the guard of \<^verbatim>\<open>follow_focused\<close> does what
  is expected of it: the RemoveAsk key changes the mode exactly when \<^verbatim>\<open>focused\<close> is
  below \<^verbatim>\<open>len(data)\<close>, it then follows \<^verbatim>\<open>data[focused]\<close>, and otherwise it leaves
  the state as it was.
\<close>

lemma remove_ask_in_range:
  "state st = State_MAIN \<Longrightarrow> key_in k REMOVE_ASK \<Longrightarrow> 0 \<le> focused st \<Longrightarrow>
   (state (snd (process_event (KeyboardEvent k) st)) = State_REMOVE_ASK
      \<longleftrightarrow> focused st < int (length (data st)))
   \<and> (focused st < int (length (data st)) \<longrightarrow>
        process_event (KeyboardEvent k) st
          = (None,
             (case last_remove_choice st of
                Some c \<Rightarrow> st\<lparr>follow := Some (data st ! nat (focused st)),
                              state := State_REMOVE_ASK, x_offset := width_remove_ask + 1,
                              side_focused := c, refresh := True\<rparr>
              | None \<Rightarrow> st\<lparr>follow := Some (data st ! nat (focused st)),
                           state := State_REMOVE_ASK, x_offset := width_remove_ask + 1,
                           refresh := True\<rparr>)))
   \<and> (\<not> focused st < int (length (data st)) \<longrightarrow>
        process_event (KeyboardEvent k) st = (None, st))"
  by (auto simp: process_event_def process_keyboard_event_def main_remove_ask follow_focused_def
      py_index_def Let_def split: option.splits)

text \<open>
  C6. A RemoveAsk event in Main mode should change the mode if and only if a task is
  focused, and leave the state alone otherwise. The guard of \<^verbatim>\<open>follow_focused\<close> tests
  \<^verbatim>\<open>focused < len(data)\<close> and nothing else, so it lets a negative index through.
  With three downloads and \<^verbatim>\<open>focused = -1\<close>, where no row is focused, the F9 key
  follows \<^verbatim>\<open>data[-1]\<close>, the last download, and enters \<^verbatim>\<open>REMOVE_ASK\<close>. The loop
  reaches that state: a left click on row 5 while the list is still empty sets
  \<^verbatim>\<open>focused\<close> to \<open>-1\<close>, the next refresh of frame 0 fetches the three downloads, and
  F9 in the frame after it asks to remove the last one.
\<close>

theorem remove_ask_negative_focus:
  "state (example_interface\<lparr>focused := - 1\<rparr>) = State_MAIN
   \<and> focused (example_interface\<lparr>focused := - 1\<rparr>) = - 1
   \<and> length (data (example_interface\<lparr>focused := - 1\<rparr>)) = 3
   \<and> process_event (KeyboardEvent KEY_F9) (example_interface\<lparr>focused := - 1\<rparr>)
       = (None,
          example_interface\<lparr>focused := - 1,
            follow := Some (example_download ''c3'' ''error'' 10 ''three''),
            state := State_REMOVE_ASK, x_offset := 24, refresh := True\<rparr>)
   \<and> run (24, 100)
         [Frame [] (Inr []), Frame [MouseEvent 3 5 1] (Inr []), Resized 24 100,
          Frame [] (Inr example_downloads)]
         (interface_init never_raises)
       = Running (example_interface\<lparr>focused := - 1, refresh := True\<rparr>)
   \<and> run (24, 100)
         [Frame [] (Inr []), Frame [MouseEvent 3 5 1] (Inr []), Resized 24 100,
          Frame [] (Inr example_downloads), Frame [KeyboardEvent KEY_F9] (Inr example_downloads)]
         (interface_init never_raises)
       = Running (example_interface\<lparr>focused := - 1, frame := 2,
            follow := Some (example_download ''c3'' ''error'' 10 ''three''),
            state := State_REMOVE_ASK, x_offset := 24, refresh := True\<rparr>)"
proof -
  have key: "process_event (KeyboardEvent KEY_F9) (example_interface\<lparr>focused := - 1\<rparr>)
       = (None,
          example_interface\<lparr>focused := - 1,
            follow := Some (example_download ''c3'' ''error'' 10 ''three''),
            state := State_REMOVE_ASK, x_offset := 24, refresh := True\<rparr>)"
    by (simp add: example_interface_def interface_init_def example_downloads_def
        process_event_def process_keyboard_event_def main_remove_ask key_in_REMOVE_ASK KEY_F9_def
        follow_focused_def py_index_def width_remove_ask_def remove_ask_rows_def
        remove_ask_header_def)
  have reach: "run (24, 100)
         [Frame [] (Inr []), Frame [MouseEvent 3 5 1] (Inr []), Resized 24 100,
          Frame [] (Inr example_downloads)]
         (interface_init never_raises)
       = Running (example_interface\<lparr>focused := - 1, refresh := True\<rparr>)"
    by (simp add: run_def set_screen_bounds frame_step_def refresh_data_def update_data_def
        sort_data_def update_rows_def py_index_def columns_order_def frames_def
        process_event_def process_mouse_event_def process_mouse_event_main_def LEFT_CLICK_def
        interface_init_def example_interface_def sorted_by_def py_sorted_def
        example_downloads_def example_download_def Let_def)
  have after: "run (24, 100)
         [Frame [] (Inr []), Frame [MouseEvent 3 5 1] (Inr []), Resized 24 100,
          Frame [] (Inr example_downloads), Frame [KeyboardEvent KEY_F9] (Inr example_downloads)]
         (interface_init never_raises)
       = Running (example_interface\<lparr>focused := - 1, frame := 2,
            follow := Some (example_download ''c3'' ''error'' 10 ''three''),
            state := State_REMOVE_ASK, x_offset := 24, refresh := True\<rparr>)"
    by (simp add: run_def set_screen_bounds frame_step_def refresh_data_def update_data_def
        sort_data_def update_rows_def py_index_def columns_order_def frames_def
        process_event_def process_mouse_event_def process_mouse_event_main_def LEFT_CLICK_def
        process_keyboard_event_def main_remove_ask key_in_REMOVE_ASK KEY_F9_def
        follow_focused_def width_remove_ask_def remove_ask_rows_def remove_ask_header_def
        interface_init_def example_interface_def sorted_by_def py_sorted_def
        example_downloads_def example_download_def Let_def)
  have "state (example_interface\<lparr>focused := - 1\<rparr>) = State_MAIN
      \<and> focused (example_interface\<lparr>focused := - 1\<rparr>) = - 1
      \<and> length (data (example_interface\<lparr>focused := - 1\<rparr>)) = 3"
    by (simp add: example_interface_def interface_init_def example_downloads_def)
  then show ?thesis using key reach after by simp
qed

end
